theory Spec2Isabelle
  imports Complex_Main "HOL-Library.Word"
begin

section \<open>JavaScript values, errors and the runtime functions the code calls\<close>

text \<open>
  The development embeds the second of the three revisions stored in
  \<^verbatim>\<open>src/api/generate-audio.js\<close> (lines 154 to 292): the request \<^verbatim>\<open>handler\<close> and the
  WebSocket session \<^verbatim>\<open>generateAudioWithTimestamps\<close>.

  A value that \<^verbatim>\<open>JSON.parse\<close> returns is a \<open>json\<close>; \<open>JObj\<close> lists the own properties
  of an object (the first entry for a name is the property), and a number is given by
  its value, a rational. A \<open>json option\<close> is the result of a property read, \<open>None\<close> being
  \<^verbatim>\<open>undefined\<close>. Strings are 8-bit character lists, bytes are 8-bit words.
\<close>

type_synonym byte = "8 word"

datatype json =
    JNull
  | JBool bool
  | JNum rat
  | JStr string
  | JArr "json list"
  | JObj "(string \<times> json) list"

datatype js_error =
    SyntaxError string
  | TypeError string
  | Error string

fun message :: "js_error \<Rightarrow> string" where
  "message (SyntaxError m) = m"
| "message (TypeError m) = m"
| "message (Error m) = m"

text \<open>JavaScript truthiness, as \<^verbatim>\<open>if (v)\<close> and \<^verbatim>\<open>!v\<close> test it.\<close>

fun truthy :: "json option \<Rightarrow> bool" where
  "truthy None = False"
| "truthy (Some JNull) = False"
| "truthy (Some (JBool b)) = b"
| "truthy (Some (JNum n)) = (n \<noteq> 0)"
| "truthy (Some (JStr s)) = (s \<noteq> [])"
| "truthy (Some (JArr xs)) = True"
| "truthy (Some (JObj kvs)) = True"

text \<open>
  The property read \<^verbatim>\<open>v.k\<close> for the names this file reads (\<^verbatim>\<open>audio\<close>,
  \<^verbatim>\<open>alignment\<close>, \<^verbatim>\<open>recordId\<close>), none of which a primitive or an array has:
  reading from \<^verbatim>\<open>null\<close> throws, an object gives its own property or \<^verbatim>\<open>undefined\<close>,
  every other value gives \<^verbatim>\<open>undefined\<close>. The texts of the \<^verbatim>\<open>TypeError\<close>s are
  written without the quotation marks the engine puts around names.
\<close>

fun get_prop :: "json \<Rightarrow> string \<Rightarrow> js_error + json option" where
  "get_prop JNull k = Inl (TypeError (''Cannot read properties of null (reading '' @ k @ '')''))"
| "get_prop (JObj kvs) k = Inr (map_of kvs k)"
| "get_prop (JBool b) k = Inr None"
| "get_prop (JNum n) k = Inr None"
| "get_prop (JStr s) k = Inr None"
| "get_prop (JArr xs) k = Inr None"

text \<open>
  The text of one inbound \<^verbatim>\<open>message\<close> event, by what \<^verbatim>\<open>JSON.parse\<close> makes of it:
  text that is not JSON, given by the message of the \<^verbatim>\<open>SyntaxError\<close> the parser
  throws for it, or JSON text, given by the value the parser returns.
\<close>

datatype frame =
    Malformed string
  | Wellformed json

fun JSON_parse :: "frame \<Rightarrow> js_error + json" where
  "JSON_parse (Malformed m) = Inl (SyntaxError m)"
| "JSON_parse (Wellformed v) = Inr v"

subsection \<open>Base64 decoding of a string, as Node's Buffer does it\<close>

text \<open>
  \<^verbatim>\<open>Buffer.from(s, 'base64')\<close> on a string: both the standard and the URL-safe
  alphabet are accepted, a character outside them is skipped, the first \<^verbatim>\<open>=\<close> ends the
  input, and a trailing group of two or three characters gives one or two bytes (a
  single trailing character gives none).
\<close>

definition base64_chars :: string where
  "base64_chars = ''ABCDEFGHIJKLMNOPQRSTUVWXYZabcdefghijklmnopqrstuvwxyz0123456789+/''"

fun index_of :: "char \<Rightarrow> string \<Rightarrow> nat option" where
  "index_of c [] = None"
| "index_of c (x # xs) =
     (if c = x then Some 0 else (case index_of c xs of None \<Rightarrow> None | Some i \<Rightarrow> Some (Suc i)))"

definition unbase64 :: "char \<Rightarrow> nat option" where
  "unbase64 c =
     (if c = CHR ''-'' then Some 62
      else if c = CHR ''_'' then Some 63
      else index_of c base64_chars)"

fun sextets :: "string \<Rightarrow> nat list" where
  "sextets [] = []"
| "sextets (c # cs) =
     (if c = CHR ''='' then []
      else (case unbase64 c of None \<Rightarrow> sextets cs | Some v \<Rightarrow> v # sextets cs))"

fun base64_groups :: "nat list \<Rightarrow> byte list" where
  "base64_groups (a # b # c # d # rest) =
     of_nat (a * 4 + b div 16) # of_nat ((b mod 16) * 16 + c div 4) # of_nat ((c mod 4) * 64 + d)
       # base64_groups rest"
| "base64_groups [a, b, c] = [of_nat (a * 4 + b div 16), of_nat ((b mod 16) * 16 + c div 4)]"
| "base64_groups [a, b] = [of_nat (a * 4 + b div 16)]"
| "base64_groups [a] = []"
| "base64_groups [] = []"

definition base64_decode :: "string \<Rightarrow> byte list" where
  "base64_decode s = base64_groups (sextets s)"

text \<open>
  \<^verbatim>\<open>Buffer.from(v, 'base64')\<close> as the closed examples use it: a string is decoded; a
  number, a boolean or \<^verbatim>\<open>null\<close> is neither a string nor an object, and Node raises a
  \<^verbatim>\<open>TypeError\<close> (its text is given without what Node appends about the value it
  received). An array or an object takes further paths in Node: the elements of an
  array are copied as bytes, an object is read for its \<^verbatim>\<open>length\<close>, \<^verbatim>\<open>type\<close> and
  \<^verbatim>\<open>data\<close>. No example passes one, and the result is left unspecified here. The
  general theorems hold for every conversion function.
\<close>

fun Buffer_from_base64 :: "json \<Rightarrow> js_error + byte list" where
  "Buffer_from_base64 (JStr s) = Inr (base64_decode s)"
| "Buffer_from_base64 JNull = Inl (TypeError ''The first argument must be of type string or an instance of Buffer, ArrayBuffer, or Array or an Array-like Object.'')"
| "Buffer_from_base64 (JBool b) = Inl (TypeError ''The first argument must be of type string or an instance of Buffer, ArrayBuffer, or Array or an Array-like Object.'')"
| "Buffer_from_base64 (JNum n) = Inl (TypeError ''The first argument must be of type string or an instance of Buffer, ArrayBuffer, or Array or an Array-like Object.'')"
| "Buffer_from_base64 (JArr xs) = undefined"
| "Buffer_from_base64 (JObj kvs) = undefined"

subsection \<open>Decimal text of an integer\<close>

text \<open>The text a template literal gives for an integral number such as \<^verbatim>\<open>Date.now()\<close>.\<close>

definition digit_char :: "nat \<Rightarrow> char" where
  "digit_char d =
     (if d = 0 then CHR ''0'' else if d = 1 then CHR ''1'' else if d = 2 then CHR ''2''
      else if d = 3 then CHR ''3'' else if d = 4 then CHR ''4'' else if d = 5 then CHR ''5''
      else if d = 6 then CHR ''6'' else if d = 7 then CHR ''7'' else if d = 8 then CHR ''8''
      else CHR ''9'')"

fun decimal_nat :: "nat \<Rightarrow> string" where
  "decimal_nat n = (if n < 10 then [digit_char n] else decimal_nat (n div 10) @ [digit_char (n mod 10)])"

definition decimal :: "int \<Rightarrow> string" where
  "decimal i = (if i < 0 then CHR ''-'' # decimal_nat (nat (- i)) else decimal_nat (nat i))"

declare decimal_nat.simps [simp del]

section \<open>The WebSocket session: generateAudioWithTimestamps\<close>

text \<open>
  What the code takes from its surroundings: the environment variables it reads (an
  unset variable is the text a template literal prints for it), the clock reading of
  \<^verbatim>\<open>Date.now()\<close> in milliseconds, the Node conversion \<^verbatim>\<open>Buffer.from(v, 'base64')\<close>,
  the text a template literal gives for a \<^verbatim>\<open>recordId\<close> that is not a string (an
  object whose conversion to text raises is not modelled), \<^verbatim>\<open>JSON.stringify(v, null, 2)\<close>,
  the outcome of the three collaborator calls (\<open>None\<close> for success where nothing is
  returned), and the events the socket delivers to the listeners, in order.
\<close>

record put_object =
  Bucket :: string
  Key :: string
  Body :: "byte list"
  ContentType :: string

datatype ws_event =
    Open
  | Message frame
  | SocketError js_error
  | Close

record env =
  AWS_S3_BUCKET_NAME :: string
  AWS_S3_REGION :: string
  VOICE_ID :: string
  ELEVENLABS_API_KEY :: string
  Date_now :: int
  Buffer_from :: "json \<Rightarrow> js_error + byte list"
  String_of :: "json \<Rightarrow> string"
  JSON_stringify :: "json \<Rightarrow> string"
  s3_send :: "put_object \<Rightarrow> js_error option"
  airtable_find :: "json \<Rightarrow> js_error + (string \<times> json) list"
  airtable_update :: "json \<Rightarrow> (string \<times> json) list \<Rightarrow> js_error option"
  socket_events :: "ws_event list"

text \<open>The value the promise resolves with: \<^verbatim>\<open>{ audioUrl, timestamps }\<close>.\<close>

record session_result =
  audioUrl :: string
  result_timestamps :: "json list"

datatype promise =
    Pending
  | Fulfilled session_result
  | Rejected js_error

text \<open>
  The state the four listeners close over: the two arrays, the promise, and two logs
  of what the session did to the outside, the messages sent on the socket (each one the
  object given to \<^verbatim>\<open>JSON.stringify\<close>) and the commands sent to S3. \<open>uncaught\<close> holds
  an exception that left a listener; nothing catches it, and no later event is handled.
\<close>

record session =
  audioChunks :: "byte list list"
  timestamps :: "json list"
  settled :: promise
  sent :: "json list"
  uploads :: "put_object list"
  uncaught :: "js_error option"

definition new_session :: session where
  "new_session =
     \<lparr>audioChunks = [], timestamps = [], settled = Pending, sent = [], uploads = [],
      uncaught = None\<rparr>"

text \<open>Settling a promise a second time has no effect.\<close>

definition resolve :: "session_result \<Rightarrow> session \<Rightarrow> session" where
  "resolve r st = (case settled st of Pending \<Rightarrow> st\<lparr>settled := Fulfilled r\<rparr> | _ \<Rightarrow> st)"

definition reject :: "js_error \<Rightarrow> session \<Rightarrow> session" where
  "reject e st = (case settled st of Pending \<Rightarrow> st\<lparr>settled := Rejected e\<rparr> | _ \<Rightarrow> st)"

definition socketUrl :: "env \<Rightarrow> string" where
  "socketUrl ev =
     ''wss://api.elevenlabs.io/v1/text-to-speech/'' @ VOICE_ID ev
       @ ''/stream-input?model_id=eleven_multilingual_v2&output_format=mp3_44100_128''"

definition bosMessage :: json where
  "bosMessage =
     JObj [(''text'', JStr '' ''),
           (''voice_settings'',
              JObj [(''stability'', JNum (1 / 2)), (''similarity_boost'', JNum (3 / 4))])]"

definition textMessage :: "json \<Rightarrow> json" where
  "textMessage text = JObj [(''text'', text), (''flush'', JBool True)]"

definition eosMessage :: json where
  "eosMessage = JObj [(''text'', JStr [])]"

definition send :: "json \<Rightarrow> session \<Rightarrow> session" where
  "send m st = st\<lparr>sent := sent st @ [m]\<rparr>"

text \<open>The \<^verbatim>\<open>open\<close> listener (lines 228 to 243): three calls of \<^verbatim>\<open>send\<close>.\<close>

definition on_open :: "json \<Rightarrow> session \<Rightarrow> session" where
  "on_open text st = send eosMessage (send (textMessage text) (send bosMessage st))"

text \<open>
  The \<^verbatim>\<open>message\<close> listener (lines 245 to 256): \<^verbatim>\<open>JSON.parse\<close>, then two independent
  tests, the first on \<^verbatim>\<open>data.audio\<close>, the second on \<^verbatim>\<open>data.alignment\<close>. No statement of
  the listener catches an exception: the parser's error, the error of reading a field
  of \<^verbatim>\<open>null\<close> and the error of \<^verbatim>\<open>Buffer.from\<close> leave it, each before anything is pushed.
\<close>

definition push_audio :: "env \<Rightarrow> json option \<Rightarrow> session \<Rightarrow> js_error + session" where
  "push_audio ev audio st =
     (case audio of
        None \<Rightarrow> Inr st
      | Some v \<Rightarrow>
          if truthy (Some v)
          then (case Buffer_from ev v of
                  Inl e \<Rightarrow> Inl e
                | Inr buf \<Rightarrow> Inr (st\<lparr>audioChunks := audioChunks st @ [buf]\<rparr>))
          else Inr st)"

definition push_alignment :: "json option \<Rightarrow> session \<Rightarrow> session" where
  "push_alignment alignment st =
     (case alignment of
        None \<Rightarrow> st
      | Some v \<Rightarrow> if truthy (Some v) then st\<lparr>timestamps := timestamps st @ [v]\<rparr> else st)"

definition on_message :: "env \<Rightarrow> frame \<Rightarrow> session \<Rightarrow> js_error + session" where
  "on_message ev m st =
     (case JSON_parse m of
        Inl e \<Rightarrow> Inl e
      | Inr data \<Rightarrow>
          (case get_prop data ''audio'' of
             Inl e \<Rightarrow> Inl e
           | Inr audio \<Rightarrow>
               (case push_audio ev audio st of
                  Inl e \<Rightarrow> Inl e
                | Inr st1 \<Rightarrow>
                    (case get_prop data ''alignment'' of
                       Inl e \<Rightarrow> Inl e
                     | Inr alignment \<Rightarrow> Inr (push_alignment alignment st1)))))"

text \<open>The \<^verbatim>\<open>error\<close> listener (lines 258 to 261).\<close>

definition on_error :: "js_error \<Rightarrow> session \<Rightarrow> session" where
  "on_error e st = reject e st"

text \<open>
  The \<^verbatim>\<open>close\<close> listener (lines 263 to 290). A \<^verbatim>\<open>recordId\<close> that is a string is
  spliced into the key as it is. The listener tests the number of fragments, builds the
  buffer, the key and the command, sends the command, and resolves when the upload
  succeeded or rejects with the upload's error; it does not look at the promise first.
\<close>

definition template_text :: "env \<Rightarrow> json \<Rightarrow> string" where
  "template_text ev v = (case v of JStr s \<Rightarrow> s | _ \<Rightarrow> String_of ev v)"

definition fileName :: "env \<Rightarrow> json \<Rightarrow> string" where
  "fileName ev recordId =
     ''audio/'' @ template_text ev recordId @ ''-'' @ decimal (Date_now ev) @ ''.mp3''"

definition s3Command :: "env \<Rightarrow> json \<Rightarrow> byte list \<Rightarrow> put_object" where
  "s3Command ev recordId audioBuffer =
     \<lparr>Bucket = AWS_S3_BUCKET_NAME ev, Key = fileName ev recordId, Body = audioBuffer,
      ContentType = ''audio/mpeg''\<rparr>"

definition publicUrl :: "env \<Rightarrow> json \<Rightarrow> string" where
  "publicUrl ev recordId =
     ''https://'' @ AWS_S3_BUCKET_NAME ev @ ''.s3.'' @ AWS_S3_REGION ev @ ''.amazonaws.com/''
       @ fileName ev recordId"

definition on_close :: "env \<Rightarrow> json \<Rightarrow> session \<Rightarrow> session" where
  "on_close ev recordId st =
     (if length (audioChunks st) = 0
      then reject (Error ''No audio data received from ElevenLabs.'') st
      else
        (let audioBuffer = concat (audioChunks st);
             cmd = s3Command ev recordId audioBuffer;
             st1 = st\<lparr>uploads := uploads st @ [cmd]\<rparr>
         in case s3_send ev cmd of
              Some e \<Rightarrow> reject e st1
            | None \<Rightarrow>
                resolve \<lparr>audioUrl = publicUrl ev recordId, result_timestamps = timestamps st1\<rparr> st1))"

text \<open>
  One event delivered to its listener. An exception that leaves the message listener
  is caught by nothing; it ends the handling of events.
\<close>

definition deliver :: "env \<Rightarrow> json \<Rightarrow> json \<Rightarrow> session \<Rightarrow> ws_event \<Rightarrow> session" where
  "deliver ev text recordId st event =
     (case uncaught st of
        Some e \<Rightarrow> st
      | None \<Rightarrow>
          (case event of
             Open \<Rightarrow> on_open text st
           | Message m \<Rightarrow>
               (case on_message ev m st of
                  Inl e \<Rightarrow> st\<lparr>uncaught := Some e\<rparr>
                | Inr st1 \<Rightarrow> st1)
           | SocketError e \<Rightarrow> on_error e st
           | Close \<Rightarrow> on_close ev recordId st))"

text \<open>
  \<^verbatim>\<open>generateAudioWithTimestamps\<close> (lines 216 to 292): a fresh pair of arrays and a
  pending promise, then the socket's events in the order of their delivery.
\<close>

definition generateAudioWithTimestamps :: "env \<Rightarrow> json \<Rightarrow> json \<Rightarrow> session" where
  "generateAudioWithTimestamps ev text recordId =
     foldl (deliver ev text recordId) new_session (socket_events ev)"

section \<open>The request handler\<close>

text \<open>
  \<^verbatim>\<open>handler\<close> (lines 175 to 213). A request has its method and its parsed body, \<open>None\<close>
  when \<^verbatim>\<open>req.body\<close> is \<^verbatim>\<open>undefined\<close>.
\<close>

record request =
  method' :: string
  body :: "json option"

record response =
  status :: nat
  json_body :: json

text \<open>The calls made to the outside, in order.\<close>

datatype call =
    AirtableFind json
  | WebSocketOpen string string
  | S3Send put_object
  | AirtableUpdate json "(string \<times> json) list"

text \<open>
  How a run of the handler ends: with the response it sent, with an exception nothing
  caught, or waiting for a promise that never settles.
\<close>

datatype outcome =
    Responded response
  | Uncaught js_error
  | Waiting

definition internal_error :: "js_error \<Rightarrow> response" where
  "internal_error e =
     \<lparr>status = 500,
      json_body = JObj [(''message'', JStr ''An internal error occurred.''),
                        (''error'', JStr (message e))]\<rparr>"

definition update_fields :: "env \<Rightarrow> session_result \<Rightarrow> (string \<times> json) list" where
  "update_fields ev r =
     [(''Audio URL'', JStr (audioUrl r)),
      (''Timestamps JSON'', JStr (JSON_stringify ev (JArr (result_timestamps r))))]"

definition success :: "session_result \<Rightarrow> json \<Rightarrow> response" where
  "success r recordId =
     \<lparr>status = 200,
      json_body = JObj [(''message'', JStr ''Successfully generated audio and updated records.''),
                        (''audioUrl'', JStr (audioUrl r)),
                        (''recordId'', recordId)]\<rparr>"

text \<open>
  The body of the \<^verbatim>\<open>try\<close> statement with its \<^verbatim>\<open>catch\<close> (lines 187 to 212). The handler
  goes on when the promise settles: after a rejection it answers from the \<^verbatim>\<open>catch\<close>,
  after a resolution it writes back and answers; the uploads listed are those of the
  whole session.
\<close>

definition handler_try :: "env \<Rightarrow> json \<Rightarrow> outcome \<times> call list" where
  "handler_try ev recordId =
     (case airtable_find ev recordId of
        Inl e \<Rightarrow> (Responded (internal_error e), [AirtableFind recordId])
      | Inr record \<Rightarrow>
          (let scriptText = map_of record ''Script'' in
           case scriptText of
             None \<Rightarrow>
               (Responded (internal_error
                  (Error ''Script field is empty or not found in Airtable record.'')),
                [AirtableFind recordId])
           | Some text \<Rightarrow>
               if \<not> truthy (Some text)
               then (Responded (internal_error
                       (Error ''Script field is empty or not found in Airtable record.'')),
                     [AirtableFind recordId])
               else
                 (let st = generateAudioWithTimestamps ev text recordId;
                      calls = [AirtableFind recordId,
                               WebSocketOpen (socketUrl ev) (ELEVENLABS_API_KEY ev)]
                              @ map S3Send (uploads st)
                  in case settled st of
                       Rejected e \<Rightarrow> (Responded (internal_error e), calls)
                     | Pending \<Rightarrow>
                         (case uncaught st of
                            Some e \<Rightarrow> (Uncaught e, calls)
                          | None \<Rightarrow> (Waiting, calls))
                     | Fulfilled r \<Rightarrow>
                         (case airtable_update ev recordId (update_fields ev r) of
                            Some e \<Rightarrow>
                              (Responded (internal_error e),
                               calls @ [AirtableUpdate recordId (update_fields ev r)])
                          | None \<Rightarrow>
                              (Responded (success r recordId),
                               calls @ [AirtableUpdate recordId (update_fields ev r)])))))"

text \<open>
  \<^verbatim>\<open>const { recordId } = req.body\<close>, which is outside the \<^verbatim>\<open>try\<close> statement: it
  throws when the body is \<^verbatim>\<open>undefined\<close> or \<^verbatim>\<open>null\<close>.
\<close>

definition destructure_recordId :: "json option \<Rightarrow> js_error + json option" where
  "destructure_recordId b =
     (case b of
        None \<Rightarrow>
          Inl (TypeError
            ''Cannot destructure property recordId of req.body as it is undefined.'')
      | Some v \<Rightarrow> get_prop v ''recordId'')"

definition handler :: "env \<Rightarrow> request \<Rightarrow> outcome \<times> call list" where
  "handler ev req =
     (if method' req \<noteq> ''POST''
      then (Responded \<lparr>status = 405,
                        json_body = JObj [(''message'', JStr ''Method Not Allowed. Use POST.'')]\<rparr>,
            [])
      else
        (case destructure_recordId (body req) of
           Inl e \<Rightarrow> (Uncaught e, [])
         | Inr None \<Rightarrow>
             (Responded \<lparr>status = 400,
                          json_body = JObj [(''message'', JStr ''Missing required field: recordId'')]\<rparr>,
              [])
         | Inr (Some recordId) \<Rightarrow>
             if \<not> truthy (Some recordId)
             then (Responded \<lparr>status = 400,
                          json_body = JObj [(''message'', JStr ''Missing required field: recordId'')]\<rparr>,
                   [])
             else handler_try ev recordId))"

section \<open>What one event contributes\<close>

text \<open>
  The audio payload of an event is the \<^verbatim>\<open>audio\<close> field of a parsed message when it is
  truthy, its audio fragment is that payload converted by \<^verbatim>\<open>Buffer.from\<close>, and its
  alignment payload is the \<^verbatim>\<open>alignment\<close> field when it is truthy. Only an object has
  fields; every other event carries neither. \<open>outbound\<close> lists the messages an event
  makes the session send, and \<open>before_close\<close> holds of the events of an undisturbed
  stream: the connection opening and inbound messages.
\<close>

fun audio_payload :: "ws_event \<Rightarrow> json option" where
  "audio_payload (Message (Wellformed (JObj kvs))) =
     (case map_of kvs ''audio'' of
        None \<Rightarrow> None
      | Some v \<Rightarrow> if truthy (Some v) then Some v else None)"
| "audio_payload event = None"

definition audio_fragments :: "env \<Rightarrow> ws_event \<Rightarrow> byte list list" where
  "audio_fragments ev event =
     (case audio_payload event of
        None \<Rightarrow> []
      | Some v \<Rightarrow> (case Buffer_from ev v of Inl e \<Rightarrow> [] | Inr buf \<Rightarrow> [buf]))"

fun alignment_payloads :: "ws_event \<Rightarrow> json list" where
  "alignment_payloads (Message (Wellformed (JObj kvs))) =
     (case map_of kvs ''alignment'' of
        None \<Rightarrow> []
      | Some v \<Rightarrow> if truthy (Some v) then [v] else [])"
| "alignment_payloads event = []"

fun outbound :: "json \<Rightarrow> ws_event \<Rightarrow> json list" where
  "outbound text Open = [bosMessage, textMessage text, eosMessage]"
| "outbound text event = []"


text \<open>
  The \<^verbatim>\<open>audio\<close> field of an event as it arrives, whether truthy or not: only a parsed
  object has one.
\<close>

fun audio_field :: "ws_event \<Rightarrow> json option" where
  "audio_field (Message (Wellformed (JObj kvs))) = map_of kvs ''audio''"
| "audio_field event = None"

text \<open>
  The first transport error among the events of a stream, if there is one: the error
  that the \<^verbatim>\<open>error\<close> listener rejects the pending promise with.
\<close>

fun first_error :: "ws_event list \<Rightarrow> js_error option" where
  "first_error [] = None"
| "first_error (SocketError e # evs) = Some e"
| "first_error (Open # evs) = first_error evs"
| "first_error (Message m # evs) = first_error evs"
| "first_error (Close # evs) = first_error evs"

section \<open>Example environments\<close>

text \<open>
  A concrete environment for closed examples, by the events the socket delivers and the
  outcome of the upload and of the write-back. The record holds the script \<^verbatim>\<open>Hello\<close>,
  strings are decoded by \<open>base64_decode\<close>, and the two text conversions are fixed texts:
  the examples use string record identifiers, and those that reach the write-back have
  no timing events, whose serialisation is \<^verbatim>\<open>[]\<close>.
\<close>

definition example_env :: "ws_event list \<Rightarrow> js_error option \<Rightarrow> js_error option \<Rightarrow> env" where
  "example_env events s3_outcome update_outcome =
     \<lparr>AWS_S3_BUCKET_NAME = ''bucket'', AWS_S3_REGION = ''eu-west-1'', VOICE_ID = ''voice'',
      ELEVENLABS_API_KEY = ''key'', Date_now = 1700000000123,
      Buffer_from = Buffer_from_base64,
      String_of = (\<lambda>v. ''[object Object]''),
      JSON_stringify = (\<lambda>v. ''[]''),
      s3_send = (\<lambda>cmd. s3_outcome),
      airtable_find = (\<lambda>recordId. Inr [(''Script'', JStr ''Hello'')]),
      airtable_update = (\<lambda>recordId fields. update_outcome),
      socket_events = events\<rparr>"

definition audio_message :: "string \<Rightarrow> ws_event" where
  "audio_message s = Message (Wellformed (JObj [(''audio'', JStr s)]))"

definition alignment_message :: "json \<Rightarrow> ws_event" where
  "alignment_message a = Message (Wellformed (JObj [(''alignment'', a)]))"


definition two_fragment_stream :: "ws_event list" where
  "two_fragment_stream =
     [Open,
      Message (Wellformed (JObj [(''audio'', JStr ''QUJD''),
                                 (''alignment'', JObj [(''chars'', JArr [JStr ''a''])])])),
      Message (Wellformed (JObj [(''isFinal'', JBool True), (''audio'', JNull)])),
      audio_message ''REVG'',
      alignment_message (JObj [(''chars'', JArr [JStr ''b''])])]"

definition silent_stream :: "ws_event list" where
  "silent_stream =
     [Open,
      alignment_message (JObj [(''chars'', JArr [JStr ''a''])]),
      Message (Wellformed (JObj [(''status'', JStr ''ping'')])),
      audio_message []]"

definition one_fragment_stream :: "ws_event list" where
  "one_fragment_stream = [Open, audio_message ''QUJD'']"

definition post_request :: "string \<Rightarrow> request" where
  "post_request recordId =
     \<lparr>method' = ''POST'', body = Some (JObj [(''recordId'', JStr recordId)])\<rparr>"

definition refused_stream :: "ws_event list" where
  "refused_stream = [Open, SocketError (Error ''ECONNREFUSED'')]"

section \<open>Lemmas on the listeners and on a run of events\<close>

lemma resolve_fields [simp]:
  "audioChunks (resolve r st) = audioChunks st"
  "timestamps (resolve r st) = timestamps st"
  "sent (resolve r st) = sent st"
  "uploads (resolve r st) = uploads st"
  "uncaught (resolve r st) = uncaught st"
  by (simp_all add: resolve_def split: promise.splits)

lemma reject_fields [simp]:
  "audioChunks (reject e st) = audioChunks st"
  "timestamps (reject e st) = timestamps st"
  "sent (reject e st) = sent st"
  "uploads (reject e st) = uploads st"
  "uncaught (reject e st) = uncaught st"
  by (simp_all add: reject_def split: promise.splits)

lemma settled_resolve: "settled (resolve r st) = (if settled st = Pending then Fulfilled r else settled st)"
  by (simp add: resolve_def split: promise.splits)

lemma settled_reject: "settled (reject e st) = (if settled st = Pending then Rejected e else settled st)"
  by (simp add: reject_def split: promise.splits)

lemma on_open_fields [simp]:
  "audioChunks (on_open text st) = audioChunks st"
  "timestamps (on_open text st) = timestamps st"
  "settled (on_open text st) = settled st"
  "uploads (on_open text st) = uploads st"
  "uncaught (on_open text st) = uncaught st"
  "sent (on_open text st) = sent st @ [bosMessage, textMessage text, eosMessage]"
  by (simp_all add: on_open_def send_def)

lemma on_close_fields [simp]:
  "audioChunks (on_close ev recordId st) = audioChunks st"
  "timestamps (on_close ev recordId st) = timestamps st"
  "sent (on_close ev recordId st) = sent st"
  "uncaught (on_close ev recordId st) = uncaught st"
  by (simp_all add: on_close_def Let_def split: option.splits)

lemma on_message_Inr:
  assumes "on_message ev m st = Inr st1"
  shows "st1 = st\<lparr>audioChunks := audioChunks st @ audio_fragments ev (Message m),
                  timestamps := timestamps st @ alignment_payloads (Message m)\<rparr>"
proof (cases m)
  case (Malformed raw)
  with assms show ?thesis by (simp add: on_message_def)
next
  case (Wellformed data)
  with assms show ?thesis
    by (cases data)
       (auto simp: on_message_def push_audio_def push_alignment_def audio_fragments_def
             split: sum.splits option.splits if_splits)
qed

lemma deliver_stuck: "uncaught st = Some e \<Longrightarrow> deliver ev text recordId st event = st"
  by (simp add: deliver_def)

lemma run_stuck: "uncaught st = Some e \<Longrightarrow> foldl (deliver ev text recordId) st evs = st"
  by (induction evs) (simp_all add: deliver_stuck)

lemma run_uncaught_None:
  "uncaught (foldl (deliver ev text recordId) st evs) = None \<Longrightarrow> uncaught st = None"
  by (cases "uncaught st") (simp_all add: run_stuck)

lemma deliver_arrays:
  assumes "uncaught (deliver ev text recordId st event) = None"
  shows "audioChunks (deliver ev text recordId st event) = audioChunks st @ audio_fragments ev event"
    and "timestamps (deliver ev text recordId st event) = timestamps st @ alignment_payloads event"
    and "sent (deliver ev text recordId st event) = sent st @ outbound text event"
proof -
  have u: "uncaught st = None"
    using assms by (cases "uncaught st") (simp_all add: deliver_stuck)
  show "audioChunks (deliver ev text recordId st event) = audioChunks st @ audio_fragments ev event"
    using assms u
    by (cases event)
       (auto simp: deliver_def on_error_def audio_fragments_def
             split: sum.splits dest!: on_message_Inr)
  show "timestamps (deliver ev text recordId st event) = timestamps st @ alignment_payloads event"
    using assms u
    by (cases event)
       (auto simp: deliver_def on_error_def split: sum.splits dest!: on_message_Inr)
  show "sent (deliver ev text recordId st event) = sent st @ outbound text event"
    using assms u
    by (cases event)
       (auto simp: deliver_def on_error_def split: sum.splits dest!: on_message_Inr)
qed

lemma run_arrays:
  assumes "uncaught (foldl (deliver ev text recordId) st evs) = None"
  shows "audioChunks (foldl (deliver ev text recordId) st evs)
           = audioChunks st @ concat (map (audio_fragments ev) evs)
       \<and> timestamps (foldl (deliver ev text recordId) st evs)
           = timestamps st @ concat (map alignment_payloads evs)
       \<and> sent (foldl (deliver ev text recordId) st evs)
           = sent st @ concat (map (outbound text) evs)"
  using assms
proof (induction evs arbitrary: st)
  case Nil
  then show ?case by simp
next
  case (Cons x xs)
  from Cons.prems have u: "uncaught (deliver ev text recordId st x) = None"
    by (auto dest: run_uncaught_None)
  from Cons.IH [of "deliver ev text recordId st x"] Cons.prems deliver_arrays [OF u]
  show ?case by simp
qed

lemma deliver_Open: "uncaught st = None \<Longrightarrow> deliver ev text recordId st Open = on_open text st"
  by (simp add: deliver_def)

lemma deliver_SocketError:
  "uncaught st = None \<Longrightarrow> deliver ev text recordId st (SocketError e) = reject e st"
  by (simp add: deliver_def on_error_def)

lemma deliver_Close:
  "uncaught st = None \<Longrightarrow> deliver ev text recordId st Close = on_close ev recordId st"
  by (simp add: deliver_def)

lemma deliver_Message:
  "settled (deliver ev text recordId st (Message m)) = settled st"
  "uploads (deliver ev text recordId st (Message m)) = uploads st"
proof -
  show "settled (deliver ev text recordId st (Message m)) = settled st"
  proof (cases "on_message ev m st")
    case (Inl e)
    then show ?thesis by (cases "uncaught st") (simp_all add: deliver_def)
  next
    case (Inr st1)
    from on_message_Inr [OF Inr] Inr show ?thesis
      by (cases "uncaught st") (simp_all add: deliver_def)
  qed
  show "uploads (deliver ev text recordId st (Message m)) = uploads st"
  proof (cases "on_message ev m st")
    case (Inl e)
    then show ?thesis by (cases "uncaught st") (simp_all add: deliver_def)
  next
    case (Inr st1)
    from on_message_Inr [OF Inr] Inr show ?thesis
      by (cases "uncaught st") (simp_all add: deliver_def)
  qed
qed

lemma deliver_not_Close:
  assumes "event \<noteq> Close"
  shows "uploads (deliver ev text recordId st event) = uploads st"
proof (cases "uncaught st")
  case None
  with assms show ?thesis
    by (cases event) (simp_all add: deliver_Open deliver_SocketError deliver_Message)
next
  case (Some e)
  then show ?thesis by (simp add: deliver_stuck)
qed

lemma run_no_Close_uploads:
  "Close \<notin> set evs \<Longrightarrow> uploads (foldl (deliver ev text recordId) st evs) = uploads st"
  by (induction evs arbitrary: st) (auto simp: deliver_not_Close)

lemma deliver_not_Close_settled:
  assumes "event \<noteq> Close" and "settled st \<noteq> Fulfilled r"
  shows "settled (deliver ev text recordId st event) \<noteq> Fulfilled r"
proof (cases "uncaught st")
  case None
  with assms show ?thesis
    by (cases event)
       (simp_all add: deliver_Open deliver_SocketError deliver_Message settled_reject)
next
  case (Some e)
  with assms show ?thesis by (simp add: deliver_stuck)
qed

lemma run_no_Close_settled:
  "Close \<notin> set evs \<Longrightarrow> settled st \<noteq> Fulfilled r
     \<Longrightarrow> settled (foldl (deliver ev text recordId) st evs) \<noteq> Fulfilled r"
proof (induction evs arbitrary: st)
  case Nil
  then show ?case by simp
next
  case (Cons x xs)
  from Cons.prems have "x \<noteq> Close" and "Close \<notin> set xs" by auto
  from Cons.IH [OF this(2) deliver_not_Close_settled [OF this(1) Cons.prems(2)]]
  show ?case by simp
qed




lemma settled_on_close_stable:
  assumes "settled st \<noteq> Pending"
  shows "settled (on_close ev recordId st) = settled st"
proof (cases "s3_send ev (s3Command ev recordId (concat (audioChunks st)))")
  case None
  with assms show ?thesis by (simp add: on_close_def Let_def settled_reject settled_resolve)
next
  case (Some e)
  with assms show ?thesis by (simp add: on_close_def Let_def settled_reject settled_resolve)
qed

lemma deliver_settled_stable:
  assumes "settled st \<noteq> Pending"
  shows "settled (deliver ev text recordId st event) = settled st"
proof (cases "uncaught st")
  case None
  with assms show ?thesis
    by (cases event)
       (simp_all add: deliver_Open deliver_SocketError deliver_Message deliver_Close
          settled_reject settled_on_close_stable)
next
  case (Some e)
  then show ?thesis by (simp add: deliver_stuck)
qed

lemma run_settled_stable:
  "settled st \<noteq> Pending \<Longrightarrow> settled (foldl (deliver ev text recordId) st evs) = settled st"
proof (induction evs arbitrary: st)
  case Nil
  then show ?case by simp
next
  case (Cons x xs)
  have "settled (deliver ev text recordId st x) = settled st"
    by (rule deliver_settled_stable [OF Cons.prems])
  with Cons.IH [of "deliver ev text recordId st x"] Cons.prems show ?case by simp
qed


section \<open>Evaluating closed examples\<close>

lemmas eval_defs =
  generateAudioWithTimestamps_def example_env_def audio_message_def alignment_message_def
  new_session_def deliver_def on_open_def on_message_def on_error_def on_close_def send_def
  push_audio_def push_alignment_def resolve_def reject_def s3Command_def publicUrl_def
  fileName_def template_text_def decimal_def digit_char_def decimal_nat.simps
  base64_decode_def unbase64_def base64_chars_def bosMessage_def textMessage_def eosMessage_def
  audio_fragments_def Let_def

lemmas handler_eval_defs =
  handler_def handler_try_def destructure_recordId_def post_request_def internal_error_def
  success_def update_fields_def socketUrl_def

section \<open>Lemmas on a session that closes once\<close>

lemma run_first_error:
  assumes "Close \<notin> set evs"
      and "uncaught (foldl (deliver ev script recordId) st evs) = None"
      and "settled st = Pending"
  shows "settled (foldl (deliver ev script recordId) st evs)
           = (case first_error evs of None \<Rightarrow> Pending | Some e \<Rightarrow> Rejected e)"
  using assms
proof (induction evs arbitrary: st)
  case Nil
  then show ?case by simp
next
  case (Cons x xs)
  from Cons.prems(2) have u1: "uncaught (deliver ev script recordId st x) = None"
    by (auto dest: run_uncaught_None)
  then have u0: "uncaught st = None"
    by (cases "uncaught st") (simp_all add: deliver_stuck)
  from Cons.prems(1) have nc: "Close \<notin> set xs" and x: "x \<noteq> Close"
    by auto
  from Cons.prems(2) have u2:
    "uncaught (foldl (deliver ev script recordId) (deliver ev script recordId st x) xs) = None"
    by simp
  show ?case
  proof (cases x)
    case Open
    with Cons.prems(3) u0 have "settled (deliver ev script recordId st x) = Pending"
      by (simp add: deliver_Open)
    from Cons.IH [OF nc u2 this] Open show ?thesis by simp
  next
    case (Message m)
    with Cons.prems(3) have "settled (deliver ev script recordId st x) = Pending"
      by (simp add: deliver_Message)
    from Cons.IH [OF nc u2 this] Message show ?thesis by simp
  next
    case (SocketError e)
    with Cons.prems(3) u0 have "settled (deliver ev script recordId st x) = Rejected e"
      by (simp add: deliver_SocketError settled_reject)
    then have "settled (foldl (deliver ev script recordId) (deliver ev script recordId st x) xs)
                 = Rejected e"
      by (simp add: run_settled_stable)
    with SocketError show ?thesis by simp
  next
    case Close
    with x show ?thesis by simp
  qed
qed

lemma stream_state_with_errors:
  assumes "Close \<notin> set evs"
      and "uncaught (foldl (deliver ev script recordId) new_session evs) = None"
  shows "foldl (deliver ev script recordId) new_session evs
           = new_session\<lparr>audioChunks := concat (map (audio_fragments ev) evs),
                         timestamps := concat (map alignment_payloads evs),
                         sent := concat (map (outbound script) evs),
                         settled := (case first_error evs of
                                       None \<Rightarrow> Pending
                                     | Some e \<Rightarrow> Rejected e)\<rparr>"
proof -
  let ?st = "foldl (deliver ev script recordId) new_session evs"
  have "settled ?st = (case first_error evs of None \<Rightarrow> Pending | Some e \<Rightarrow> Rejected e)"
    by (rule run_first_error [OF assms]) (simp add: new_session_def)
  moreover have "uploads ?st = []"
    using run_no_Close_uploads [OF assms(1), where st = new_session]
    by (simp add: new_session_def)
  moreover note run_arrays [OF assms(2)] assms(2)
  ultimately show ?thesis
    by (intro session.equality) (simp_all add: new_session_def)
qed

lemma closed_once:
  assumes "socket_events ev = evs @ [Close]"
      and "Close \<notin> set evs"
      and "uncaught (foldl (deliver ev script recordId) new_session evs) = None"
  shows "generateAudioWithTimestamps ev script recordId
           = on_close ev recordId
               (new_session\<lparr>audioChunks := concat (map (audio_fragments ev) evs),
                             timestamps := concat (map alignment_payloads evs),
                             sent := concat (map (outbound script) evs),
                             settled := (case first_error evs of
                                           None \<Rightarrow> Pending
                                         | Some e \<Rightarrow> Rejected e)\<rparr>)"
proof -
  have "generateAudioWithTimestamps ev script recordId
          = deliver ev script recordId (foldl (deliver ev script recordId) new_session evs) Close"
    by (simp add: generateAudioWithTimestamps_def assms(1))
  also have "\<dots> = on_close ev recordId (foldl (deliver ev script recordId) new_session evs)"
    using assms(3) by (simp add: deliver_def)
  finally show ?thesis
    by (simp add: stream_state_with_errors [OF assms(2,3)])
qed

lemma closed_once_without_fragments:
  assumes "socket_events ev = evs @ [Close]"
      and "Close \<notin> set evs"
      and "uncaught (foldl (deliver ev script recordId) new_session evs) = None"
      and "concat (map (audio_fragments ev) evs) = []"
  shows "settled (generateAudioWithTimestamps ev script recordId)
           = Rejected (case first_error evs of
                         None \<Rightarrow> Error ''No audio data received from ElevenLabs.''
                       | Some e \<Rightarrow> e)
       \<and> uploads (generateAudioWithTimestamps ev script recordId) = []"
  using assms(4)
  by (cases "first_error evs")
     (simp_all add: closed_once [OF assms(1-3)] on_close_def new_session_def settled_reject
        del: concat_eq_Nil_conv)

lemma closed_once_with_fragments:
  assumes "socket_events ev = evs @ [Close]"
      and "Close \<notin> set evs"
      and "uncaught (foldl (deliver ev script recordId) new_session evs) = None"
      and "concat (map (audio_fragments ev) evs) \<noteq> []"
  shows "uploads (generateAudioWithTimestamps ev script recordId)
           = [s3Command ev recordId (concat (concat (map (audio_fragments ev) evs)))]
       \<and> settled (generateAudioWithTimestamps ev script recordId)
           = (case first_error evs of
                Some t \<Rightarrow> Rejected t
              | None \<Rightarrow>
                  (case s3_send ev (s3Command ev recordId
                          (concat (concat (map (audio_fragments ev) evs)))) of
                     Some e \<Rightarrow> Rejected e
                   | None \<Rightarrow>
                       Fulfilled \<lparr>audioUrl = publicUrl ev recordId,
                                  result_timestamps = concat (map alignment_payloads evs)\<rparr>))"
  using assms(4)
  by (cases "first_error evs";
      cases "s3_send ev (s3Command ev recordId (concat (concat (map (audio_fragments ev) evs))))")
     (simp_all add: closed_once [OF assms(1-3)] on_close_def new_session_def Let_def
        settled_reject settled_resolve del: concat_eq_Nil_conv)

lemma closed_once_crashed:
  assumes "socket_events ev = evs @ [Close]"
      and "Close \<notin> set evs"
      and "uncaught (foldl (deliver ev script recordId) new_session evs) = Some e"
  shows "uploads (generateAudioWithTimestamps ev script recordId) = []
       \<and> settled (generateAudioWithTimestamps ev script recordId) \<noteq> Fulfilled r"
proof -
  let ?st = "foldl (deliver ev script recordId) new_session evs"
  have "generateAudioWithTimestamps ev script recordId = ?st"
    using assms(3) by (simp add: generateAudioWithTimestamps_def assms(1) deliver_stuck)
  moreover have "uploads ?st = []"
    using run_no_Close_uploads [OF assms(2), where st = new_session]
    by (simp add: new_session_def)
  moreover have "settled ?st \<noteq> Fulfilled r"
    by (rule run_no_Close_settled [OF assms(2)]) (simp add: new_session_def)
  ultimately show ?thesis by simp
qed

lemma closed_once_uploaded:
  assumes "socket_events ev = evs @ [Close]"
      and "Close \<notin> set evs"
      and "uploads (generateAudioWithTimestamps ev script recordId) \<noteq> []"
  shows "uncaught (foldl (deliver ev script recordId) new_session evs) = None
       \<and> concat (map (audio_fragments ev) evs) \<noteq> []"
proof -
  have u: "uncaught (foldl (deliver ev script recordId) new_session evs) = None"
  proof (cases "uncaught (foldl (deliver ev script recordId) new_session evs)")
    case (Some e)
    from closed_once_crashed [OF assms(1,2) Some] assms(3) show ?thesis by simp
  qed simp
  have "concat (map (audio_fragments ev) evs) \<noteq> []"
  proof
    assume "concat (map (audio_fragments ev) evs) = []"
    from closed_once_without_fragments [OF assms(1,2) u this] assms(3) show False by simp
  qed
  with u show ?thesis by simp
qed

lemma closed_once_fulfilled:
  assumes "socket_events ev = evs @ [Close]"
      and "Close \<notin> set evs"
      and "settled (generateAudioWithTimestamps ev script recordId) = Fulfilled r"
  shows "uploads (generateAudioWithTimestamps ev script recordId)
           = [s3Command ev recordId (concat (concat (map (audio_fragments ev) evs)))]
       \<and> r = \<lparr>audioUrl = publicUrl ev recordId,
               result_timestamps = concat (map alignment_payloads evs)\<rparr>
       \<and> s3_send ev (s3Command ev recordId (concat (concat (map (audio_fragments ev) evs)))) = None
       \<and> first_error evs = None"
proof -
  have u: "uncaught (foldl (deliver ev script recordId) new_session evs) = None"
  proof (cases "uncaught (foldl (deliver ev script recordId) new_session evs)")
    case (Some e)
    from closed_once_crashed [OF assms(1,2) Some, of r] assms(3) show ?thesis by simp
  qed simp
  have f: "concat (map (audio_fragments ev) evs) \<noteq> []"
  proof
    assume "concat (map (audio_fragments ev) evs) = []"
    from closed_once_without_fragments [OF assms(1,2) u this] assms(3) show False by simp
  qed
  from closed_once_with_fragments [OF assms(1,2) u f] assms(3) show ?thesis
    by (auto split: option.splits)
qed

section \<open>Lemmas on the storage key\<close>

lemma digit_char_code: "d < 10 \<Longrightarrow> of_char (digit_char d) = 48 + d"
proof -
  assume "d < 10"
  then consider "d = 0" | "d = 1" | "d = 2" | "d = 3" | "d = 4" | "d = 5" | "d = 6" | "d = 7"
    | "d = 8" | "d = 9"
    by atomize_elim arith
  then show ?thesis
    by cases (simp_all add: digit_char_def)
qed

lemma digit_char_inj:
  assumes "a < 10" and "b < 10" and "digit_char a = digit_char b"
  shows "a = b"
proof -
  have "(of_char (digit_char a) :: nat) = of_char (digit_char b)"
    using assms(3) by simp
  with assms(1,2) show ?thesis by (simp add: digit_char_code)
qed

lemma decimal_nat_not_Nil: "decimal_nat n \<noteq> []"
  by (subst decimal_nat.simps) simp

lemma decimal_nat_inj: "decimal_nat n = decimal_nat m \<Longrightarrow> n = m"
proof (induction n arbitrary: m rule: decimal_nat.induct)
  case (1 n)
  show ?case
  proof (cases "n < 10")
    case small_n: True
    show ?thesis
    proof (cases "m < 10")
      case True
      with small_n "1.prems" show ?thesis
        by (simp add: decimal_nat.simps [of n] decimal_nat.simps [of m] digit_char_inj)
    next
      case False
      with small_n "1.prems" decimal_nat_not_Nil [of "m div 10"] show ?thesis
        by (simp add: decimal_nat.simps [of n] decimal_nat.simps [of m] Cons_eq_append_conv)
    qed
  next
    case big_n: False
    show ?thesis
    proof (cases "m < 10")
      case True
      with big_n "1.prems" decimal_nat_not_Nil [of "n div 10"] show ?thesis
        by (simp add: decimal_nat.simps [of n] decimal_nat.simps [of m] append_eq_Cons_conv)
    next
      case False
      with big_n "1.prems"
      have eq: "decimal_nat (n div 10) = decimal_nat (m div 10)"
        and d: "digit_char (n mod 10) = digit_char (m mod 10)"
        by (simp_all add: decimal_nat.simps [of n] decimal_nat.simps [of m])
      from "1.IH" [OF big_n eq] have "n div 10 = m div 10" .
      moreover from d have "n mod 10 = m mod 10"
        by (rule digit_char_inj [rotated 2]) simp_all
      ultimately show ?thesis
        by (metis div_mult_mod_eq)
    qed
  qed
qed

lemma digit_char_not_minus: "digit_char d \<noteq> CHR ''-''"
  by (simp add: digit_char_def)

lemma decimal_nat_no_minus: "CHR ''-'' \<notin> set (decimal_nat n)"
proof (induction n rule: decimal_nat.induct)
  case (1 n)
  then show ?case
    by (cases "n < 10")
       (simp_all add: decimal_nat.simps [of n] digit_char_not_minus [THEN not_sym])
qed

lemma decimal_inj: "decimal i = decimal j \<Longrightarrow> i = j"
proof -
  assume eq: "decimal i = decimal j"
  have neg_pos: "CHR ''-'' # decimal_nat a \<noteq> decimal_nat b" for a b
  proof
    assume "CHR ''-'' # decimal_nat a = decimal_nat b"
    then have "CHR ''-'' \<in> set (decimal_nat b)"
      by (metis list.set_intros(1))
    with decimal_nat_no_minus show False by blast
  qed
  show ?thesis
  proof (cases "i < 0")
    case neg_i: True
    show ?thesis
    proof (cases "j < 0")
      case True
      with neg_i eq have "nat (- i) = nat (- j)"
        by (simp add: decimal_def decimal_nat_inj)
      with neg_i True show ?thesis by simp
    next
      case False
      with neg_i eq neg_pos show ?thesis by (simp add: decimal_def)
    qed
  next
    case pos_i: False
    show ?thesis
    proof (cases "j < 0")
      case True
      with pos_i eq neg_pos [of "nat (- j)" "nat i"] show ?thesis
        by (simp add: decimal_def)
    next
      case False
      with pos_i eq have "nat i = nat j"
        by (simp add: decimal_def decimal_nat_inj)
      with pos_i False show ?thesis by simp
    qed
  qed
qed

lemma fileName_inj:
  assumes "fileName ev (JStr rid) = fileName ev' (JStr rid)"
  shows "Date_now ev = Date_now ev'"
  using assms by (simp add: fileName_def template_text_def decimal_inj)

section \<open>Lemmas on what a session leaves behind\<close>

lemma on_close_keeps_key:
  assumes "list_all (\<lambda>c. Key c = fileName ev recordId \<and> ContentType c = ''audio/mpeg''
             \<and> Bucket c = AWS_S3_BUCKET_NAME ev) (uploads st)"
  shows "list_all (\<lambda>c. Key c = fileName ev recordId \<and> ContentType c = ''audio/mpeg''
             \<and> Bucket c = AWS_S3_BUCKET_NAME ev) (uploads (on_close ev recordId st))"
  using assms
  by (cases "s3_send ev (s3Command ev recordId (concat (audioChunks st)))")
     (simp_all add: on_close_def Let_def s3Command_def)

lemma on_close_keeps_url:
  assumes "\<And>r. settled st = Fulfilled r \<Longrightarrow> audioUrl r = publicUrl ev recordId"
      and "settled (on_close ev recordId st) = Fulfilled r"
  shows "audioUrl r = publicUrl ev recordId"
proof (cases "settled st = Pending")
  case False
  with assms show ?thesis by (simp add: settled_on_close_stable)
next
  case True
  with assms(2) show ?thesis
    by (cases "s3_send ev (s3Command ev recordId (concat (audioChunks st)))")
       (auto simp: on_close_def Let_def settled_reject settled_resolve split: if_splits)
qed

lemma deliver_keeps_key:
  assumes "list_all (\<lambda>c. Key c = fileName ev recordId \<and> ContentType c = ''audio/mpeg''
             \<and> Bucket c = AWS_S3_BUCKET_NAME ev) (uploads st)"
  shows "list_all (\<lambda>c. Key c = fileName ev recordId \<and> ContentType c = ''audio/mpeg''
             \<and> Bucket c = AWS_S3_BUCKET_NAME ev) (uploads (deliver ev script recordId st event))"
proof (cases "event = Close")
  case False
  with assms show ?thesis by (simp add: deliver_not_Close)
next
  case True
  show ?thesis
  proof (cases "uncaught st")
    case None
    with True on_close_keeps_key [OF assms] show ?thesis by (simp add: deliver_Close)
  next
    case (Some e)
    with assms show ?thesis by (simp add: deliver_stuck)
  qed
qed

lemma deliver_keeps_url:
  assumes "\<And>r. settled st = Fulfilled r \<Longrightarrow> audioUrl r = publicUrl ev recordId"
      and "settled (deliver ev script recordId st event) = Fulfilled r"
  shows "audioUrl r = publicUrl ev recordId"
proof (cases "event = Close")
  case False
  show ?thesis
  proof (cases "settled st = Fulfilled r")
    case True
    with assms(1) show ?thesis .
  next
    case False
    from deliver_not_Close_settled [OF \<open>event \<noteq> Close\<close> False] assms(2) show ?thesis
      by simp
  qed
next
  case True
  show ?thesis
  proof (cases "uncaught st")
    case None
    with True assms(2) have "settled (on_close ev recordId st) = Fulfilled r"
      by (simp add: deliver_Close)
    from on_close_keeps_url [OF assms(1) this] show ?thesis .
  next
    case (Some e)
    with assms show ?thesis by (simp add: deliver_stuck)
  qed
qed

lemma run_keeps_key_and_url:
  assumes "list_all (\<lambda>c. Key c = fileName ev recordId \<and> ContentType c = ''audio/mpeg''
             \<and> Bucket c = AWS_S3_BUCKET_NAME ev) (uploads st)"
      and "\<And>r. settled st = Fulfilled r \<Longrightarrow> audioUrl r = publicUrl ev recordId"
  shows "list_all (\<lambda>c. Key c = fileName ev recordId \<and> ContentType c = ''audio/mpeg''
             \<and> Bucket c = AWS_S3_BUCKET_NAME ev)
           (uploads (foldl (deliver ev script recordId) st evs))
       \<and> (\<forall>r. settled (foldl (deliver ev script recordId) st evs) = Fulfilled r
             \<longrightarrow> audioUrl r = publicUrl ev recordId)"
  using assms
proof (induction evs arbitrary: st)
  case Nil
  then show ?case by simp
next
  case (Cons x xs)
  have "list_all (\<lambda>c. Key c = fileName ev recordId \<and> ContentType c = ''audio/mpeg''
             \<and> Bucket c = AWS_S3_BUCKET_NAME ev) (uploads (deliver ev script recordId st x))"
    by (rule deliver_keeps_key [OF Cons.prems(1)])
  moreover have "\<And>r. settled (deliver ev script recordId st x) = Fulfilled r
      \<Longrightarrow> audioUrl r = publicUrl ev recordId"
    by (rule deliver_keeps_url [OF Cons.prems(2)])
  ultimately show ?case
    using Cons.IH [of "deliver ev script recordId st x"] by simp
qed

section \<open>Lemmas on the handler\<close>

lemma handler_try_session:
  assumes "airtable_find ev recordId = Inr record"
      and "map_of record ''Script'' = Some script"
      and "truthy (Some script)"
  shows "handler_try ev recordId =
     (case settled (generateAudioWithTimestamps ev script recordId) of
        Rejected e \<Rightarrow>
          (Responded (internal_error e),
           [AirtableFind recordId, WebSocketOpen (socketUrl ev) (ELEVENLABS_API_KEY ev)]
             @ map S3Send (uploads (generateAudioWithTimestamps ev script recordId)))
      | Pending \<Rightarrow>
          (case uncaught (generateAudioWithTimestamps ev script recordId) of
             Some e \<Rightarrow>
               (Uncaught e,
                [AirtableFind recordId, WebSocketOpen (socketUrl ev) (ELEVENLABS_API_KEY ev)]
                  @ map S3Send (uploads (generateAudioWithTimestamps ev script recordId)))
           | None \<Rightarrow>
               (Waiting,
                [AirtableFind recordId, WebSocketOpen (socketUrl ev) (ELEVENLABS_API_KEY ev)]
                  @ map S3Send (uploads (generateAudioWithTimestamps ev script recordId))))
      | Fulfilled r \<Rightarrow>
          (case airtable_update ev recordId (update_fields ev r) of
             Some e \<Rightarrow>
               (Responded (internal_error e),
                [AirtableFind recordId, WebSocketOpen (socketUrl ev) (ELEVENLABS_API_KEY ev)]
                  @ map S3Send (uploads (generateAudioWithTimestamps ev script recordId))
                  @ [AirtableUpdate recordId (update_fields ev r)])
           | None \<Rightarrow>
               (Responded (success r recordId),
                [AirtableFind recordId, WebSocketOpen (socketUrl ev) (ELEVENLABS_API_KEY ev)]
                  @ map S3Send (uploads (generateAudioWithTimestamps ev script recordId))
                  @ [AirtableUpdate recordId (update_fields ev r)])))"
  using assms by (simp add: handler_try_def Let_def split: promise.splits option.splits)

section \<open>The claims\<close>

text \<open>
  C1. For every sequence of inbound events followed by the close of the connection, when
  the session resolves, the audio buffer it assembled (the body it uploaded) is the
  concatenation, in arrival order, of exactly the converted audio payloads of those
  events, and the timing list it resolves with is exactly their alignment payloads in
  arrival order, unchanged; an event that carries neither contributes to neither.
\<close>

theorem assembled_outputs_follow_arrival_order:
  assumes "socket_events ev = evs @ [Close]"
      and "Close \<notin> set evs"
      and "settled (generateAudioWithTimestamps ev text recordId) = Fulfilled r"
  shows "map Body (uploads (generateAudioWithTimestamps ev text recordId))
           = [concat (concat (map (audio_fragments ev) evs))]
       \<and> result_timestamps r = concat (map alignment_payloads evs)"
proof -
  let ?st = "foldl (deliver ev text recordId) new_session evs"
  let ?gen = "generateAudioWithTimestamps ev text recordId"
  have gen: "?gen = deliver ev text recordId ?st Close"
    by (simp add: generateAudioWithTimestamps_def assms(1))
  have nf: "settled ?st \<noteq> Fulfilled r"
    by (rule run_no_Close_settled [OF assms(2)]) (simp add: new_session_def)
  have u: "uncaught ?st = None"
  proof (cases "uncaught ?st")
    case (Some e)
    with gen assms(3) nf show ?thesis by (simp add: deliver_stuck)
  qed simp
  have up: "uploads ?st = []"
    using run_no_Close_uploads [OF assms(2), where st = new_session]
    by (simp add: new_session_def)
  note arr = run_arrays [OF u]
  have close: "?gen = on_close ev recordId ?st"
    using gen u by (simp add: deliver_Close)
  have chunks: "audioChunks ?st \<noteq> []"
  proof
    assume "audioChunks ?st = []"
    then have "settled ?gen = settled (reject (Error ''No audio data received from ElevenLabs.'') ?st)"
      by (simp add: close on_close_def)
    with assms(3) nf show False
      by (simp add: settled_reject split: if_splits)
  qed
  have s3: "s3_send ev (s3Command ev recordId (concat (audioChunks ?st))) = None"
  proof (cases "s3_send ev (s3Command ev recordId (concat (audioChunks ?st)))")
    case (Some e)
    with chunks have "settled ?gen = settled (reject e (?st\<lparr>uploads := uploads ?st
        @ [s3Command ev recordId (concat (audioChunks ?st))]\<rparr>))"
      by (simp add: close on_close_def Let_def)
    with assms(3) nf show ?thesis
      by (simp add: settled_reject split: if_splits)
  qed simp
  from chunks s3 have res: "?gen = resolve
      \<lparr>audioUrl = publicUrl ev recordId, result_timestamps = timestamps ?st\<rparr>
      (?st\<lparr>uploads := uploads ?st @ [s3Command ev recordId (concat (audioChunks ?st))]\<rparr>)"
    by (simp add: close on_close_def Let_def)
  have "r = \<lparr>audioUrl = publicUrl ev recordId, result_timestamps = timestamps ?st\<rparr>"
    using assms(3) nf unfolding res by (simp add: settled_resolve split: if_splits)
  moreover have "uploads ?gen = [s3Command ev recordId (concat (audioChunks ?st))]"
    unfolding res by (simp add: up)
  ultimately show ?thesis
    using arr by (simp add: s3Command_def new_session_def)
qed

theorem assembled_outputs_follow_arrival_order_witness:
  "socket_events (example_env (two_fragment_stream @ [Close]) None None)
     = two_fragment_stream @ [Close]
   \<and> Close \<notin> set two_fragment_stream
   \<and> settled (generateAudioWithTimestamps (example_env (two_fragment_stream @ [Close]) None None)
        (JStr ''Hello'') (JStr ''rec1''))
       = Fulfilled
           \<lparr>audioUrl = ''https://bucket.s3.eu-west-1.amazonaws.com/audio/rec1-1700000000123.mp3'',
            result_timestamps = [JObj [(''chars'', JArr [JStr ''a''])],
                                 JObj [(''chars'', JArr [JStr ''b''])]]\<rparr>
   \<and> map Body (uploads (generateAudioWithTimestamps
          (example_env (two_fragment_stream @ [Close]) None None) (JStr ''Hello'') (JStr ''rec1'')))
       = [[65, 66, 67, 68, 69, 70]]"
proof -
  let ?ev = "example_env (two_fragment_stream @ [Close]) None None"
  have h1: "socket_events ?ev = two_fragment_stream @ [Close]"
    by (simp add: example_env_def)
  have h2: "Close \<notin> set two_fragment_stream"
    by (simp add: two_fragment_stream_def audio_message_def alignment_message_def)
  have h3: "settled (generateAudioWithTimestamps ?ev (JStr ''Hello'') (JStr ''rec1''))
       = Fulfilled
           \<lparr>audioUrl = ''https://bucket.s3.eu-west-1.amazonaws.com/audio/rec1-1700000000123.mp3'',
            result_timestamps = [JObj [(''chars'', JArr [JStr ''a''])],
                                 JObj [(''chars'', JArr [JStr ''b''])]]\<rparr>"
    by (simp add: eval_defs two_fragment_stream_def)
  have frags: "concat (concat (map (audio_fragments ?ev) two_fragment_stream))
       = [65, 66, 67, 68, 69, 70]"
    by (simp add: eval_defs two_fragment_stream_def)
  from assembled_outputs_follow_arrival_order [OF h1 h2 h3] h1 h2 h3 frags
  show ?thesis by simp
qed

text \<open>
  C2 (as amended). For every session whose connection closes, once and as its last
  event, no listener having raised, with zero accumulated audio fragments, the promise
  ends rejected, however many alignment or other events were observed: with the error
  \<^verbatim>\<open>No audio data received from ElevenLabs.\<close> when no transport error was reported
  before the close, and with the first transport error otherwise. The test is made
  before any concatenation, and nothing is uploaded. A session that resolves was
  therefore assembled from at least one audio fragment. (The bytes of that fragment
  list may still be empty.)
\<close>

theorem close_without_fragments_rejects:
  assumes "socket_events ev = evs @ [Close]"
      and "Close \<notin> set evs"
      and "uncaught (foldl (deliver ev script recordId) new_session evs) = None"
  shows "(audioChunks (foldl (deliver ev script recordId) new_session evs) = [] \<longrightarrow>
            settled (generateAudioWithTimestamps ev script recordId)
              = Rejected (case first_error evs of
                            None \<Rightarrow> Error ''No audio data received from ElevenLabs.''
                          | Some e \<Rightarrow> e)
          \<and> uploads (generateAudioWithTimestamps ev script recordId) = [])
       \<and> (\<forall>r. settled (generateAudioWithTimestamps ev script recordId) = Fulfilled r \<longrightarrow>
            audioChunks (foldl (deliver ev script recordId) new_session evs) \<noteq> [])"
proof -
  have chunks: "audioChunks (foldl (deliver ev script recordId) new_session evs)
                  = concat (map (audio_fragments ev) evs)"
    using run_arrays [OF assms(3)] by (simp add: new_session_def)
  show ?thesis
  proof (cases "concat (map (audio_fragments ev) evs) = []")
    case True
    from closed_once_without_fragments [OF assms True] True show ?thesis
      by (simp add: chunks del: concat_eq_Nil_conv)
  next
    case False
    then show ?thesis by (simp add: chunks del: concat_eq_Nil_conv)
  qed
qed

theorem close_without_fragments_rejects_witness:
  "audioChunks (foldl (deliver (example_env (silent_stream @ [Close]) None None)
      (JStr ''Hello'') (JStr ''rec1'')) new_session silent_stream) = []
   \<and> settled (generateAudioWithTimestamps (example_env (silent_stream @ [Close]) None None)
         (JStr ''Hello'') (JStr ''rec1''))
       = Rejected (Error ''No audio data received from ElevenLabs.'')
   \<and> uploads (generateAudioWithTimestamps (example_env (silent_stream @ [Close]) None None)
         (JStr ''Hello'') (JStr ''rec1'')) = []
   \<and> settled (generateAudioWithTimestamps
         (example_env (refused_stream @ [Close]) None None) (JStr ''Hello'') (JStr ''rec1''))
       = Rejected (Error ''ECONNREFUSED'')
   \<and> uploads (generateAudioWithTimestamps
         (example_env (refused_stream @ [Close]) None None) (JStr ''Hello'') (JStr ''rec1'')) = []
   \<and> settled (generateAudioWithTimestamps (example_env (one_fragment_stream @ [Close]) None None)
         (JStr ''Hello'') (JStr ''rec1''))
       = Fulfilled
           \<lparr>audioUrl = ''https://bucket.s3.eu-west-1.amazonaws.com/audio/rec1-1700000000123.mp3'',
            result_timestamps = []\<rparr>
   \<and> audioChunks (foldl (deliver (example_env (one_fragment_stream @ [Close]) None None)
         (JStr ''Hello'') (JStr ''rec1'')) new_session one_fragment_stream) \<noteq> []"
proof -
  let ?ev = "example_env (silent_stream @ [Close]) None None"
  let ?er = "example_env (refused_stream @ [Close]) None None"
  let ?ok = "example_env (one_fragment_stream @ [Close]) None None"
  have h1: "socket_events ?ev = silent_stream @ [Close]"
    by (simp add: example_env_def)
  have h2: "Close \<notin> set silent_stream"
    by (simp add: silent_stream_def audio_message_def alignment_message_def)
  have h3: "uncaught (foldl (deliver ?ev (JStr ''Hello'') (JStr ''rec1'')) new_session silent_stream)
              = None"
    by (simp add: eval_defs silent_stream_def)
  have h4: "audioChunks (foldl (deliver ?ev (JStr ''Hello'') (JStr ''rec1'')) new_session
              silent_stream) = []"
    by (simp add: eval_defs silent_stream_def)
  have h5: "first_error silent_stream = None"
    by (simp add: silent_stream_def audio_message_def alignment_message_def)
  from close_without_fragments_rejects [OF h1 h2 h3, THEN conjunct1, rule_format, OF h4] h5
  have first: "settled (generateAudioWithTimestamps ?ev (JStr ''Hello'') (JStr ''rec1''))
         = Rejected (Error ''No audio data received from ElevenLabs.'')
     \<and> uploads (generateAudioWithTimestamps ?ev (JStr ''Hello'') (JStr ''rec1'')) = []"
    by simp
  have r1: "socket_events ?er = refused_stream @ [Close]"
    by (simp add: example_env_def)
  have r2: "Close \<notin> set refused_stream"
    by (simp add: refused_stream_def)
  have r3: "uncaught (foldl (deliver ?er (JStr ''Hello'') (JStr ''rec1'')) new_session refused_stream)
              = None"
    by (simp add: eval_defs refused_stream_def)
  have r4: "audioChunks (foldl (deliver ?er (JStr ''Hello'') (JStr ''rec1'')) new_session
              refused_stream) = []"
    by (simp add: eval_defs refused_stream_def)
  have r5: "first_error refused_stream = Some (Error ''ECONNREFUSED'')"
    by (simp add: refused_stream_def)
  from close_without_fragments_rejects [OF r1 r2 r3, THEN conjunct1, rule_format, OF r4] r5
  have refused: "settled (generateAudioWithTimestamps ?er (JStr ''Hello'') (JStr ''rec1''))
         = Rejected (Error ''ECONNREFUSED'')
     \<and> uploads (generateAudioWithTimestamps ?er (JStr ''Hello'') (JStr ''rec1'')) = []"
    by simp
  have k1: "socket_events ?ok = one_fragment_stream @ [Close]"
    by (simp add: example_env_def)
  have k2: "Close \<notin> set one_fragment_stream"
    by (simp add: one_fragment_stream_def audio_message_def)
  have k3: "uncaught (foldl (deliver ?ok (JStr ''Hello'') (JStr ''rec1'')) new_session
              one_fragment_stream) = None"
    by (simp add: eval_defs one_fragment_stream_def)
  have k4: "settled (generateAudioWithTimestamps ?ok (JStr ''Hello'') (JStr ''rec1''))
       = Fulfilled
           \<lparr>audioUrl = ''https://bucket.s3.eu-west-1.amazonaws.com/audio/rec1-1700000000123.mp3'',
            result_timestamps = []\<rparr>"
    by (simp add: eval_defs one_fragment_stream_def)
  from close_without_fragments_rejects [OF k1 k2 k3, THEN conjunct2, rule_format, OF k4]
  have second: "audioChunks (foldl (deliver ?ok (JStr ''Hello'') (JStr ''rec1'')) new_session
                  one_fragment_stream) \<noteq> []" .
  from h4 first refused k4 second show ?thesis
    by blast
qed

theorem zero_fragments_other_error_and_empty_audio:
  "audioChunks (foldl (deliver (example_env (refused_stream @ [Close]) None None)
      (JStr ''Hello'') (JStr ''rec1'')) new_session refused_stream) = []
   \<and> settled (generateAudioWithTimestamps (example_env (refused_stream @ [Close]) None None)
        (JStr ''Hello'') (JStr ''rec1''))
       = Rejected (Error ''ECONNREFUSED'')
   \<and> settled (generateAudioWithTimestamps (example_env [audio_message ''='', Close] None None)
        (JStr ''Hello'') (JStr ''rec1''))
       = Fulfilled
           \<lparr>audioUrl = ''https://bucket.s3.eu-west-1.amazonaws.com/audio/rec1-1700000000123.mp3'',
            result_timestamps = []\<rparr>
   \<and> map Body (uploads (generateAudioWithTimestamps
         (example_env [audio_message ''='', Close] None None) (JStr ''Hello'') (JStr ''rec1'')))
       = [[]]"
  by (simp add: eval_defs refused_stream_def)

text \<open>
  C3 (as amended). For every inbound payload that is not JSON text, the message
  listener raises the parser's \<^verbatim>\<open>SyntaxError\<close>, which nothing in the message-handling
  path catches. The payload carries no audio fragment and no alignment payload, the
  listener leaves the arrays, the promise and the uploads as they were, and the session
  handles no event after it.
\<close>

theorem malformed_payload_raises:
  "on_message ev (Malformed m) st = Inl (SyntaxError m)
   \<and> audio_fragments ev (Message (Malformed m)) = []
   \<and> alignment_payloads (Message (Malformed m)) = []
   \<and> (uncaught st = None \<longrightarrow>
        deliver ev text recordId st (Message (Malformed m)) = st\<lparr>uncaught := Some (SyntaxError m)\<rparr>)
   \<and> foldl (deliver ev text recordId) (deliver ev text recordId st (Message (Malformed m))) evs
       = deliver ev text recordId st (Message (Malformed m))"
proof -
  have raise: "on_message ev (Malformed m) st = Inl (SyntaxError m)"
    by (simp add: on_message_def)
  have step: "uncaught st = None \<Longrightarrow>
      deliver ev text recordId st (Message (Malformed m)) = st\<lparr>uncaught := Some (SyntaxError m)\<rparr>"
    by (simp add: deliver_def raise)
  have "\<exists>e. uncaught (deliver ev text recordId st (Message (Malformed m))) = Some e"
  proof (cases "uncaught st")
    case None
    then show ?thesis by (simp add: step)
  next
    case (Some e)
    then show ?thesis by (simp add: deliver_stuck)
  qed
  then obtain e where "uncaught (deliver ev text recordId st (Message (Malformed m))) = Some e" ..
  from run_stuck [OF this] raise step show ?thesis
    by (simp add: audio_fragments_def)
qed

theorem malformed_payload_raises_witness:
  "uncaught new_session = None
   \<and> on_message (example_env [] None None) (Malformed ''Unexpected token p'') new_session
       = Inl (SyntaxError ''Unexpected token p'')
   \<and> deliver (example_env [] None None) (JStr ''Hello'') (JStr ''rec1'') new_session
         (Message (Malformed ''Unexpected token p''))
       = new_session\<lparr>uncaught := Some (SyntaxError ''Unexpected token p'')\<rparr>"
proof -
  have h: "uncaught new_session = None" by (simp add: new_session_def)
  from malformed_payload_raises [of "example_env [] None None" "''Unexpected token p''" new_session
      "JStr ''Hello''" "JStr ''rec1''" "[]"] h
  show ?thesis by simp
qed

theorem malformed_payload_aborts_session:
  "on_message (example_env [] None None) (Malformed ''Unexpected token p'') new_session
     = Inl (SyntaxError ''Unexpected token p'')
   \<and> uncaught (generateAudioWithTimestamps
         (example_env [audio_message ''QUJD'', Message (Malformed ''Unexpected token p''),
                       audio_message ''REVG'', Close] None None)
         (JStr ''Hello'') (JStr ''rec1''))
       = Some (SyntaxError ''Unexpected token p'')
   \<and> settled (generateAudioWithTimestamps
         (example_env [audio_message ''QUJD'', Message (Malformed ''Unexpected token p''),
                       audio_message ''REVG'', Close] None None)
         (JStr ''Hello'') (JStr ''rec1''))
       = Pending
   \<and> fst (handler
         (example_env [audio_message ''QUJD'', Message (Malformed ''Unexpected token p''),
                       audio_message ''REVG'', Close] None None)
         (post_request ''rec1''))
       = Uncaught (SyntaxError ''Unexpected token p'')"
  by (simp add: eval_defs handler_eval_defs)




text \<open>
  C5 (as amended). Every inbound event that the message listener handles without
  raising is put through two independent tests: it contributes at most one audio
  fragment (exactly one when its audio field is truthy) and at most one alignment
  payload (exactly one when its alignment field is truthy), and nothing else changes.
  A payload in which both fields are truthy is treated as both.
\<close>

theorem message_passes_two_independent_tests:
  assumes "on_message ev m st = Inr st1"
  shows "st1 = st\<lparr>audioChunks := audioChunks st @ audio_fragments ev (Message m),
                  timestamps := timestamps st @ alignment_payloads (Message m)\<rparr>
       \<and> length (audio_fragments ev (Message m))
           = (if audio_payload (Message m) = None then 0 else 1)
       \<and> length (alignment_payloads (Message m)) \<le> 1"
proof -
  have len: "length (audio_fragments ev (Message m))
           = (if audio_payload (Message m) = None then 0 else 1)
       \<and> length (alignment_payloads (Message m)) \<le> 1"
  proof (cases m)
    case (Malformed raw)
    then show ?thesis by (simp add: audio_fragments_def)
  next
    case (Wellformed data)
    with assms show ?thesis
      by (cases data)
         (auto simp: on_message_def push_audio_def audio_fragments_def
               split: sum.splits option.splits if_splits)
  qed
  with on_message_Inr [OF assms] show ?thesis by simp
qed

theorem message_passes_two_independent_tests_witness:
  "on_message (example_env [] None None)
      (Wellformed (JObj [(''audio'', JStr ''QUJD''), (''isFinal'', JBool False)])) new_session
     = Inr (new_session\<lparr>audioChunks := [[65, 66, 67]]\<rparr>)
   \<and> length (audio_fragments (example_env [] None None)
        (Message (Wellformed (JObj [(''audio'', JStr ''QUJD''), (''isFinal'', JBool False)])))) = 1
   \<and> length (alignment_payloads
        (Message (Wellformed (JObj [(''audio'', JStr ''QUJD''), (''isFinal'', JBool False)])))) \<le> 1"
proof -
  have h: "on_message (example_env [] None None)
      (Wellformed (JObj [(''audio'', JStr ''QUJD''), (''isFinal'', JBool False)])) new_session
     = Inr (new_session\<lparr>audioChunks := [[65, 66, 67]]\<rparr>)"
    by (simp add: eval_defs)
  from message_passes_two_independent_tests [OF h] h show ?thesis
    by simp
qed

theorem message_is_both_audio_and_alignment:
  "on_message (example_env [] None None)
      (Wellformed (JObj [(''audio'', JStr ''QUJD''),
                         (''alignment'', JObj [(''chars'', JArr [JStr ''a''])])]))
      new_session
     = Inr \<lparr>audioChunks = [[65, 66, 67]],
            timestamps = [JObj [(''chars'', JArr [JStr ''a''])]],
            settled = Pending, sent = [], uploads = [], uncaught = None\<rparr>"
  by (simp add: eval_defs)

text \<open>
  C6. Upon connection establishment the session transmits exactly three messages, in
  this order: the configuration message with the voice settings, one message with the
  whole input text that asks for an immediate flush, and the end-of-stream message
  whose text is empty. No other listener transmits anything: over a whole session in
  which no listener raised, the messages sent are these three for each \<^verbatim>\<open>open\<close> event.
\<close>

theorem open_sends_three_messages:
  assumes "uncaught (generateAudioWithTimestamps ev script recordId) = None"
  shows "sent (on_open script st) = sent st @ [bosMessage, textMessage script, eosMessage]
       \<and> sent (generateAudioWithTimestamps ev script recordId)
           = concat (map (outbound script) (socket_events ev))
       \<and> outbound script Open = [bosMessage, textMessage script, eosMessage]
       \<and> outbound script (Message m) = []
       \<and> outbound script (SocketError e) = []
       \<and> outbound script Close = []
       \<and> get_prop bosMessage ''voice_settings''
           = Inr (Some (JObj [(''stability'', JNum (1 / 2)), (''similarity_boost'', JNum (3 / 4))]))
       \<and> get_prop (textMessage script) ''text'' = Inr (Some script)
       \<and> get_prop (textMessage script) ''flush'' = Inr (Some (JBool True))
       \<and> get_prop eosMessage ''text'' = Inr (Some (JStr []))"
proof -
  from assms have "uncaught (foldl (deliver ev script recordId) new_session (socket_events ev)) = None"
    by (simp add: generateAudioWithTimestamps_def)
  from run_arrays [OF this]
  have "sent (generateAudioWithTimestamps ev script recordId)
          = concat (map (outbound script) (socket_events ev))"
    by (simp add: generateAudioWithTimestamps_def new_session_def)
  then show ?thesis
    by (simp add: bosMessage_def textMessage_def eosMessage_def)
qed

theorem open_sends_three_messages_witness:
  "uncaught (generateAudioWithTimestamps (example_env (two_fragment_stream @ [Close]) None None)
       (JStr ''Hello'') (JStr ''rec1'')) = None
   \<and> sent (generateAudioWithTimestamps (example_env (two_fragment_stream @ [Close]) None None)
       (JStr ''Hello'') (JStr ''rec1''))
     = [JObj [(''text'', JStr '' ''),
              (''voice_settings'',
                 JObj [(''stability'', JNum (1 / 2)), (''similarity_boost'', JNum (3 / 4))])],
        JObj [(''text'', JStr ''Hello''), (''flush'', JBool True)],
        JObj [(''text'', JStr [])]]"
proof -
  let ?ev = "example_env (two_fragment_stream @ [Close]) None None"
  have h: "uncaught (generateAudioWithTimestamps ?ev (JStr ''Hello'') (JStr ''rec1'')) = None"
    by (simp add: eval_defs two_fragment_stream_def)
  have s: "concat (map (outbound (JStr ''Hello'')) (socket_events ?ev))
     = [JObj [(''text'', JStr '' ''),
              (''voice_settings'',
                 JObj [(''stability'', JNum (1 / 2)), (''similarity_boost'', JNum (3 / 4))])],
        JObj [(''text'', JStr ''Hello''), (''flush'', JBool True)],
        JObj [(''text'', JStr [])]]"
    by (simp add: example_env_def two_fragment_stream_def audio_message_def alignment_message_def
          bosMessage_def textMessage_def eosMessage_def)
  from open_sends_three_messages [OF h, THEN conjunct2, THEN conjunct1]
  have "sent (generateAudioWithTimestamps ?ev (JStr ''Hello'') (JStr ''rec1''))
     = [JObj [(''text'', JStr '' ''),
              (''voice_settings'',
                 JObj [(''stability'', JNum (1 / 2)), (''similarity_boost'', JNum (3 / 4))])],
        JObj [(''text'', JStr ''Hello''), (''flush'', JBool True)],
        JObj [(''text'', JStr [])]]"
    by (simp only: s)
  with h show ?thesis by (rule conjI)
qed

text \<open>
  C7. For every request whose session closes once, as its last event, and uploads the
  assembled audio: if the upload fails, the request ends in the response with status
  500 and the calls made are the record fetch, the connection and the upload, with no
  write-back; if the upload succeeds and the write-back fails, the request ends in
  the response with status 500 as well, and the upload is the only call made to the
  storage: the write-back is the last call, nothing is deleted. The two remaining cases
  are stated with them: after a transport error the write-back is not attempted and the
  response has status 500, and when the write-back succeeds the response has status 200.
\<close>

theorem storage_and_write_back_failures:
  assumes "socket_events ev = evs @ [Close]"
      and "Close \<notin> set evs"
      and "uploads (generateAudioWithTimestamps ev script recordId) \<noteq> []"
      and "airtable_find ev recordId = Inr row"
      and "map_of row ''Script'' = Some script"
      and "truthy (Some script)"
      and "cmd = s3Command ev recordId (concat (concat (map (audio_fragments ev) evs)))"
      and "written = update_fields ev
             \<lparr>audioUrl = publicUrl ev recordId,
              result_timestamps = concat (map alignment_payloads evs)\<rparr>"
  shows "uploads (generateAudioWithTimestamps ev script recordId) = [cmd]
       \<and> (s3_send ev cmd = Some e \<longrightarrow>
            handler_try ev recordId
              = (Responded
                   \<lparr>status = 500,
                    json_body =
                      JObj [(''message'', JStr ''An internal error occurred.''),
                            (''error'',
                               JStr (message (case first_error evs of
                                                None \<Rightarrow> e
                                              | Some t \<Rightarrow> t)))]\<rparr>,
                 [AirtableFind recordId, WebSocketOpen (socketUrl ev) (ELEVENLABS_API_KEY ev),
                  S3Send cmd]))
       \<and> (s3_send ev cmd = None \<longrightarrow> first_error evs = None \<longrightarrow>
            airtable_update ev recordId written = Some e \<longrightarrow>
            handler_try ev recordId
              = (Responded
                   \<lparr>status = 500,
                    json_body =
                      JObj [(''message'', JStr ''An internal error occurred.''),
                            (''error'', JStr (message e))]\<rparr>,
                 [AirtableFind recordId, WebSocketOpen (socketUrl ev) (ELEVENLABS_API_KEY ev),
                  S3Send cmd, AirtableUpdate recordId written]))
       \<and> (s3_send ev cmd = None \<longrightarrow> first_error evs = Some t \<longrightarrow>
            handler_try ev recordId
              = (Responded
                   \<lparr>status = 500,
                    json_body =
                      JObj [(''message'', JStr ''An internal error occurred.''),
                            (''error'', JStr (message t))]\<rparr>,
                 [AirtableFind recordId, WebSocketOpen (socketUrl ev) (ELEVENLABS_API_KEY ev),
                  S3Send cmd]))
       \<and> (s3_send ev cmd = None \<longrightarrow> first_error evs = None \<longrightarrow>
            airtable_update ev recordId written = None \<longrightarrow>
            handler_try ev recordId
              = (Responded
                   \<lparr>status = 200,
                    json_body =
                      JObj [(''message'', JStr ''Successfully generated audio and updated records.''),
                            (''audioUrl'', JStr (publicUrl ev recordId)),
                            (''recordId'', recordId)]\<rparr>,
                 [AirtableFind recordId, WebSocketOpen (socketUrl ev) (ELEVENLABS_API_KEY ev),
                  S3Send cmd, AirtableUpdate recordId written]))"
proof -
  from closed_once_uploaded [OF assms(1-3)]
  have u: "uncaught (foldl (deliver ev script recordId) new_session evs) = None"
    and f: "concat (map (audio_fragments ev) evs) \<noteq> []"
    by simp_all
  note closed = closed_once_with_fragments [OF assms(1,2) u f]
  have up: "uploads (generateAudioWithTimestamps ev script recordId) = [cmd]"
    using closed assms(7) by simp
  have failed: "s3_send ev cmd = Some e \<Longrightarrow>
      settled (generateAudioWithTimestamps ev script recordId)
        = Rejected (case first_error evs of None \<Rightarrow> e | Some t \<Rightarrow> t)"
    using closed assms(7) by (cases "first_error evs") simp_all
  have stored: "s3_send ev cmd = None \<Longrightarrow> first_error evs = None \<Longrightarrow>
      settled (generateAudioWithTimestamps ev script recordId)
        = Fulfilled \<lparr>audioUrl = publicUrl ev recordId,
                     result_timestamps = concat (map alignment_payloads evs)\<rparr>"
    using closed assms(7) by simp
  have a: "s3_send ev cmd = Some e \<Longrightarrow>
            handler_try ev recordId
              = (Responded
                   \<lparr>status = 500,
                    json_body =
                      JObj [(''message'', JStr ''An internal error occurred.''),
                            (''error'',
                               JStr (message (case first_error evs of
                                                None \<Rightarrow> e
                                              | Some t \<Rightarrow> t)))]\<rparr>,
                 [AirtableFind recordId, WebSocketOpen (socketUrl ev) (ELEVENLABS_API_KEY ev),
                  S3Send cmd])"
    by (simp add: handler_try_session [OF assms(4-6)] failed up internal_error_def)
  have b: "s3_send ev cmd = None \<Longrightarrow> first_error evs = None \<Longrightarrow>
            airtable_update ev recordId written = Some e \<Longrightarrow>
            handler_try ev recordId
              = (Responded
                   \<lparr>status = 500,
                    json_body =
                      JObj [(''message'', JStr ''An internal error occurred.''),
                            (''error'', JStr (message e))]\<rparr>,
                 [AirtableFind recordId, WebSocketOpen (socketUrl ev) (ELEVENLABS_API_KEY ev),
                  S3Send cmd, AirtableUpdate recordId written])"
    using assms(8)
    by (simp add: handler_try_session [OF assms(4-6)] stored up internal_error_def)
  have disturbed: "s3_send ev cmd = None \<Longrightarrow> first_error evs = Some t \<Longrightarrow>
      settled (generateAudioWithTimestamps ev script recordId) = Rejected t"
    using closed assms(7) by simp
  have c: "s3_send ev cmd = None \<Longrightarrow> first_error evs = Some t \<Longrightarrow>
            handler_try ev recordId
              = (Responded
                   \<lparr>status = 500,
                    json_body =
                      JObj [(''message'', JStr ''An internal error occurred.''),
                            (''error'', JStr (message t))]\<rparr>,
                 [AirtableFind recordId, WebSocketOpen (socketUrl ev) (ELEVENLABS_API_KEY ev),
                  S3Send cmd])"
    by (simp add: handler_try_session [OF assms(4-6)] disturbed up internal_error_def)
  have d: "s3_send ev cmd = None \<Longrightarrow> first_error evs = None \<Longrightarrow>
            airtable_update ev recordId written = None \<Longrightarrow>
            handler_try ev recordId
              = (Responded
                   \<lparr>status = 200,
                    json_body =
                      JObj [(''message'', JStr ''Successfully generated audio and updated records.''),
                            (''audioUrl'', JStr (publicUrl ev recordId)),
                            (''recordId'', recordId)]\<rparr>,
                 [AirtableFind recordId, WebSocketOpen (socketUrl ev) (ELEVENLABS_API_KEY ev),
                  S3Send cmd, AirtableUpdate recordId written])"
    using assms(8)
    by (simp add: handler_try_session [OF assms(4-6)] stored up success_def)
  from up a b c d show ?thesis by blast
qed

theorem storage_and_write_back_failures_witness:
  "handler_try (example_env (one_fragment_stream @ [Close]) (Some (Error ''AccessDenied'')) None)
      (JStr ''rec1'')
     = (Responded
          \<lparr>status = 500,
           json_body = JObj [(''message'', JStr ''An internal error occurred.''),
                             (''error'', JStr ''AccessDenied'')]\<rparr>,
        [AirtableFind (JStr ''rec1''),
         WebSocketOpen
           (socketUrl (example_env (one_fragment_stream @ [Close]) (Some (Error ''AccessDenied'')) None))
           ''key'',
         S3Send \<lparr>Bucket = ''bucket'', Key = ''audio/rec1-1700000000123.mp3'',
                 Body = [65, 66, 67], ContentType = ''audio/mpeg''\<rparr>])
   \<and> handler_try (example_env (one_fragment_stream @ [Close]) None (Some (Error ''NOT_FOUND'')))
      (JStr ''rec1'')
     = (Responded
          \<lparr>status = 500,
           json_body = JObj [(''message'', JStr ''An internal error occurred.''),
                             (''error'', JStr ''NOT_FOUND'')]\<rparr>,
        [AirtableFind (JStr ''rec1''),
         WebSocketOpen
           (socketUrl (example_env (one_fragment_stream @ [Close]) None (Some (Error ''NOT_FOUND''))))
           ''key'',
         S3Send \<lparr>Bucket = ''bucket'', Key = ''audio/rec1-1700000000123.mp3'',
                 Body = [65, 66, 67], ContentType = ''audio/mpeg''\<rparr>,
         AirtableUpdate (JStr ''rec1'')
           [(''Audio URL'',
               JStr ''https://bucket.s3.eu-west-1.amazonaws.com/audio/rec1-1700000000123.mp3''),
            (''Timestamps JSON'', JStr ''[]'')]])
   \<and> handler_try (example_env (one_fragment_stream @ [Close]) None None) (JStr ''rec1'')
     = (Responded
          \<lparr>status = 200,
           json_body =
             JObj [(''message'', JStr ''Successfully generated audio and updated records.''),
                   (''audioUrl'',
                      JStr ''https://bucket.s3.eu-west-1.amazonaws.com/audio/rec1-1700000000123.mp3''),
                   (''recordId'', JStr ''rec1'')]\<rparr>,
        [AirtableFind (JStr ''rec1''),
         WebSocketOpen (socketUrl (example_env (one_fragment_stream @ [Close]) None None)) ''key'',
         S3Send \<lparr>Bucket = ''bucket'', Key = ''audio/rec1-1700000000123.mp3'',
                 Body = [65, 66, 67], ContentType = ''audio/mpeg''\<rparr>,
         AirtableUpdate (JStr ''rec1'')
           [(''Audio URL'',
               JStr ''https://bucket.s3.eu-west-1.amazonaws.com/audio/rec1-1700000000123.mp3''),
            (''Timestamps JSON'', JStr ''[]'')]])
   \<and> handler_try
        (example_env (one_fragment_stream @ [SocketError (Error ''socket hang up''), Close])
           None None)
        (JStr ''rec1'')
     = (Responded
          \<lparr>status = 500,
           json_body = JObj [(''message'', JStr ''An internal error occurred.''),
                             (''error'', JStr ''socket hang up'')]\<rparr>,
        [AirtableFind (JStr ''rec1''),
         WebSocketOpen
           (socketUrl (example_env
              (one_fragment_stream @ [SocketError (Error ''socket hang up''), Close])
              None None))
           ''key'',
         S3Send \<lparr>Bucket = ''bucket'', Key = ''audio/rec1-1700000000123.mp3'',
                 Body = [65, 66, 67], ContentType = ''audio/mpeg''\<rparr>])"
proof -
  let ?a = "example_env (one_fragment_stream @ [Close]) (Some (Error ''AccessDenied'')) None"
  let ?b = "example_env (one_fragment_stream @ [Close]) None (Some (Error ''NOT_FOUND''))"
  let ?cmd = "\<lparr>Bucket = ''bucket'', Key = ''audio/rec1-1700000000123.mp3'',
               Body = [65, 66, 67], ContentType = ''audio/mpeg''\<rparr>"
  let ?written = "[(''Audio URL'',
               JStr ''https://bucket.s3.eu-west-1.amazonaws.com/audio/rec1-1700000000123.mp3''),
            (''Timestamps JSON'', JStr ''[]'')]"
  have h2: "Close \<notin> set one_fragment_stream"
    by (simp add: one_fragment_stream_def audio_message_def)
  have h5: "map_of [(''Script'', JStr ''Hello'')] ''Script'' = Some (JStr ''Hello'')"
    by simp
  have h6: "truthy (Some (JStr ''Hello''))"
    by simp
  have h7: "first_error one_fragment_stream = None"
    by (simp add: one_fragment_stream_def audio_message_def)
  have a1: "socket_events ?a = one_fragment_stream @ [Close]"
    by (simp add: example_env_def)
  have a3: "uploads (generateAudioWithTimestamps ?a (JStr ''Hello'') (JStr ''rec1'')) \<noteq> []"
    by (simp add: eval_defs one_fragment_stream_def)
  have a5: "airtable_find ?a (JStr ''rec1'') = Inr [(''Script'', JStr ''Hello'')]"
    by (simp add: example_env_def)
  have a8: "?cmd = s3Command ?a (JStr ''rec1'')
              (concat (concat (map (audio_fragments ?a) one_fragment_stream)))"
    by (simp add: eval_defs one_fragment_stream_def)
  have a9: "?written = update_fields ?a
             \<lparr>audioUrl = publicUrl ?a (JStr ''rec1''),
              result_timestamps = concat (map alignment_payloads one_fragment_stream)\<rparr>"
    by (simp add: eval_defs update_fields_def one_fragment_stream_def)
  have a10: "s3_send ?a ?cmd = Some (Error ''AccessDenied'')"
    by (simp add: example_env_def)
  have b1: "socket_events ?b = one_fragment_stream @ [Close]"
    by (simp add: example_env_def)
  have b3: "uploads (generateAudioWithTimestamps ?b (JStr ''Hello'') (JStr ''rec1'')) \<noteq> []"
    by (simp add: eval_defs one_fragment_stream_def)
  have b5: "airtable_find ?b (JStr ''rec1'') = Inr [(''Script'', JStr ''Hello'')]"
    by (simp add: example_env_def)
  have b8: "?cmd = s3Command ?b (JStr ''rec1'')
              (concat (concat (map (audio_fragments ?b) one_fragment_stream)))"
    by (simp add: eval_defs one_fragment_stream_def)
  have b9: "?written = update_fields ?b
             \<lparr>audioUrl = publicUrl ?b (JStr ''rec1''),
              result_timestamps = concat (map alignment_payloads one_fragment_stream)\<rparr>"
    by (simp add: eval_defs update_fields_def one_fragment_stream_def)
  have b10: "s3_send ?b ?cmd = None"
    by (simp add: example_env_def)
  have b11: "airtable_update ?b (JStr ''rec1'') ?written = Some (Error ''NOT_FOUND'')"
    by (simp add: example_env_def)
  have b12: "ELEVENLABS_API_KEY ?b = ''key''" and a12: "ELEVENLABS_API_KEY ?a = ''key''"
    by (simp_all add: example_env_def)
  from storage_and_write_back_failures [OF a1 h2 a3 a5 h5 h6 a8 a9,
      where e = "Error ''AccessDenied''", THEN conjunct2, THEN conjunct1, rule_format, OF a10]
  have first: "handler_try ?a (JStr ''rec1'')
     = (Responded
          \<lparr>status = 500,
           json_body = JObj [(''message'', JStr ''An internal error occurred.''),
                             (''error'', JStr ''AccessDenied'')]\<rparr>,
        [AirtableFind (JStr ''rec1''), WebSocketOpen (socketUrl ?a) ''key'', S3Send ?cmd])"
    by (simp add: a12 h7)
  from storage_and_write_back_failures [OF b1 h2 b3 b5 h5 h6 b8 b9,
      where e = "Error ''NOT_FOUND''", THEN conjunct2, THEN conjunct2, THEN conjunct1,
      rule_format, OF b10 h7 b11]
  have second: "handler_try ?b (JStr ''rec1'')
     = (Responded
          \<lparr>status = 500,
           json_body = JObj [(''message'', JStr ''An internal error occurred.''),
                             (''error'', JStr ''NOT_FOUND'')]\<rparr>,
        [AirtableFind (JStr ''rec1''), WebSocketOpen (socketUrl ?b) ''key'', S3Send ?cmd,
         AirtableUpdate (JStr ''rec1'') ?written])"
    by (simp add: b12)
  let ?c = "example_env (one_fragment_stream @ [Close]) None None"
  let ?d = "example_env (one_fragment_stream @ [SocketError (Error ''socket hang up''), Close])
              None None"
  let ?dist = "one_fragment_stream @ [SocketError (Error ''socket hang up'')]"
  have c1: "socket_events ?c = one_fragment_stream @ [Close]"
    by (simp add: example_env_def)
  have c3: "uploads (generateAudioWithTimestamps ?c (JStr ''Hello'') (JStr ''rec1'')) \<noteq> []"
    by (simp add: eval_defs one_fragment_stream_def)
  have c5: "airtable_find ?c (JStr ''rec1'') = Inr [(''Script'', JStr ''Hello'')]"
    by (simp add: example_env_def)
  have c8: "?cmd = s3Command ?c (JStr ''rec1'')
              (concat (concat (map (audio_fragments ?c) one_fragment_stream)))"
    by (simp add: eval_defs one_fragment_stream_def)
  have c9: "?written = update_fields ?c
             \<lparr>audioUrl = publicUrl ?c (JStr ''rec1''),
              result_timestamps = concat (map alignment_payloads one_fragment_stream)\<rparr>"
    by (simp add: eval_defs update_fields_def one_fragment_stream_def)
  have c10: "s3_send ?c ?cmd = None" and c11: "airtable_update ?c (JStr ''rec1'') ?written = None"
    and c12: "ELEVENLABS_API_KEY ?c = ''key''"
    and c13: "publicUrl ?c (JStr ''rec1'')
        = ''https://bucket.s3.eu-west-1.amazonaws.com/audio/rec1-1700000000123.mp3''"
    by (simp_all add: eval_defs)
  from storage_and_write_back_failures [OF c1 h2 c3 c5 h5 h6 c8 c9,
      THEN conjunct2, THEN conjunct2, THEN conjunct2, THEN conjunct2, rule_format,
      OF c10 h7 c11]
  have third: "handler_try ?c (JStr ''rec1'')
     = (Responded
          \<lparr>status = 200,
           json_body =
             JObj [(''message'', JStr ''Successfully generated audio and updated records.''),
                   (''audioUrl'',
                      JStr ''https://bucket.s3.eu-west-1.amazonaws.com/audio/rec1-1700000000123.mp3''),
                   (''recordId'', JStr ''rec1'')]\<rparr>,
        [AirtableFind (JStr ''rec1''), WebSocketOpen (socketUrl ?c) ''key'', S3Send ?cmd,
         AirtableUpdate (JStr ''rec1'') ?written])"
    by (simp add: c12 c13)
  have d1: "socket_events ?d = ?dist @ [Close]"
    by (simp add: example_env_def)
  have d2: "Close \<notin> set ?dist"
    by (simp add: one_fragment_stream_def audio_message_def)
  have d3: "uploads (generateAudioWithTimestamps ?d (JStr ''Hello'') (JStr ''rec1'')) \<noteq> []"
    by (simp add: eval_defs one_fragment_stream_def)
  have d5: "airtable_find ?d (JStr ''rec1'') = Inr [(''Script'', JStr ''Hello'')]"
    by (simp add: example_env_def)
  have d7: "first_error ?dist = Some (Error ''socket hang up'')"
    by (simp add: one_fragment_stream_def audio_message_def)
  have d8: "?cmd = s3Command ?d (JStr ''rec1'') (concat (concat (map (audio_fragments ?d) ?dist)))"
    by (simp add: eval_defs one_fragment_stream_def)
  have d9: "?written = update_fields ?d
             \<lparr>audioUrl = publicUrl ?d (JStr ''rec1''),
              result_timestamps = concat (map alignment_payloads ?dist)\<rparr>"
    by (simp add: eval_defs update_fields_def one_fragment_stream_def)
  have d10: "s3_send ?d ?cmd = None" and d12: "ELEVENLABS_API_KEY ?d = ''key''"
    by (simp_all add: example_env_def)
  from storage_and_write_back_failures [OF d1 d2 d3 d5 h5 h6 d8 d9,
      where t = "Error ''socket hang up''",
      THEN conjunct2, THEN conjunct2, THEN conjunct2, THEN conjunct1, rule_format, OF d10 d7]
  have fourth: "handler_try ?d (JStr ''rec1'')
     = (Responded
          \<lparr>status = 500,
           json_body = JObj [(''message'', JStr ''An internal error occurred.''),
                             (''error'', JStr ''socket hang up'')]\<rparr>,
        [AirtableFind (JStr ''rec1''), WebSocketOpen (socketUrl ?d) ''key'', S3Send ?cmd])"
    by (simp add: d12)
  from first second third fourth show ?thesis by blast
qed

text \<open>
  C8 (as amended). The storage key for a record identifier that is a string is
  \<^verbatim>\<open>audio/{recordId}-{unixMillisTimestamp}.mp3\<close>, the content type is \<^verbatim>\<open>audio/mpeg\<close>,
  and the public address is made of the bucket name, the region and the key. Every
  upload of a session carries this key, content type and bucket; a session that closes
  once and resolves has made exactly one upload, of the assembled audio under this key,
  and resolves with this address; a request answered with status 200 has made that one
  upload and reports this address. Two calls for the same record produce different keys
  exactly when their clock readings differ: calls that read the same millisecond
  produce the same key.
\<close>

theorem storage_key_and_address:
  "Key (s3Command ev (JStr rid) buf) = ''audio/'' @ rid @ ''-'' @ decimal (Date_now ev) @ ''.mp3''
   \<and> ContentType (s3Command ev recordId buf) = ''audio/mpeg''
   \<and> Bucket (s3Command ev recordId buf) = AWS_S3_BUCKET_NAME ev
   \<and> Body (s3Command ev recordId buf) = buf
   \<and> publicUrl ev recordId
       = ''https://'' @ AWS_S3_BUCKET_NAME ev @ ''.s3.'' @ AWS_S3_REGION ev @ ''.amazonaws.com/''
           @ Key (s3Command ev recordId buf)
   \<and> list_all (\<lambda>c. Key c = Key (s3Command ev recordId buf) \<and> ContentType c = ''audio/mpeg''
                  \<and> Bucket c = AWS_S3_BUCKET_NAME ev)
         (uploads (generateAudioWithTimestamps ev script recordId))
   \<and> (settled (generateAudioWithTimestamps ev script recordId) = Fulfilled r
        \<longrightarrow> audioUrl r = publicUrl ev recordId)
   \<and> (socket_events ev = evs @ [Close] \<longrightarrow> Close \<notin> set evs \<longrightarrow>
        settled (generateAudioWithTimestamps ev script recordId) = Fulfilled r \<longrightarrow>
        uploads (generateAudioWithTimestamps ev script recordId)
          = [s3Command ev recordId (concat (concat (map (audio_fragments ev) evs)))])
   \<and> (socket_events ev = evs @ [Close] \<longrightarrow> Close \<notin> set evs \<longrightarrow>
        airtable_find ev recordId = Inr row \<longrightarrow> map_of row ''Script'' = Some script \<longrightarrow>
        truthy (Some script) \<longrightarrow>
        fst (handler_try ev recordId) = Responded resp \<longrightarrow> status resp = 200 \<longrightarrow>
        handler_try ev recordId
          = (Responded
               \<lparr>status = 200,
                json_body =
                  JObj [(''message'', JStr ''Successfully generated audio and updated records.''),
                        (''audioUrl'', JStr (publicUrl ev recordId)),
                        (''recordId'', recordId)]\<rparr>,
             [AirtableFind recordId, WebSocketOpen (socketUrl ev) (ELEVENLABS_API_KEY ev),
              S3Send (s3Command ev recordId (concat (concat (map (audio_fragments ev) evs)))),
              AirtableUpdate recordId
                (update_fields ev
                   \<lparr>audioUrl = publicUrl ev recordId,
                    result_timestamps = concat (map alignment_payloads evs)\<rparr>)]))
   \<and> (Key (s3Command ev (JStr rid) buf) = Key (s3Command ev' (JStr rid) buf'))
       = (Date_now ev = Date_now ev')"
proof -
  have inv: "list_all (\<lambda>c. Key c = fileName ev recordId \<and> ContentType c = ''audio/mpeg''
                  \<and> Bucket c = AWS_S3_BUCKET_NAME ev)
         (uploads (generateAudioWithTimestamps ev script recordId))
       \<and> (\<forall>r. settled (generateAudioWithTimestamps ev script recordId) = Fulfilled r
             \<longrightarrow> audioUrl r = publicUrl ev recordId)"
    unfolding generateAudioWithTimestamps_def
    by (rule run_keeps_key_and_url) (simp_all add: new_session_def)
  have once: "socket_events ev = evs @ [Close] \<Longrightarrow> Close \<notin> set evs \<Longrightarrow>
        settled (generateAudioWithTimestamps ev script recordId) = Fulfilled r \<Longrightarrow>
        uploads (generateAudioWithTimestamps ev script recordId)
          = [s3Command ev recordId (concat (concat (map (audio_fragments ev) evs)))]"
    by (simp add: closed_once_fulfilled)
  have keys: "(fileName ev (JStr rid) = fileName ev' (JStr rid)) = (Date_now ev = Date_now ev')"
    using fileName_inj [of ev rid ev']
    by (auto simp: fileName_def template_text_def)
  have answered: "handler_try ev recordId
          = (Responded
               \<lparr>status = 200,
                json_body =
                  JObj [(''message'', JStr ''Successfully generated audio and updated records.''),
                        (''audioUrl'', JStr (publicUrl ev recordId)),
                        (''recordId'', recordId)]\<rparr>,
             [AirtableFind recordId, WebSocketOpen (socketUrl ev) (ELEVENLABS_API_KEY ev),
              S3Send (s3Command ev recordId (concat (concat (map (audio_fragments ev) evs)))),
              AirtableUpdate recordId
                (update_fields ev
                   \<lparr>audioUrl = publicUrl ev recordId,
                    result_timestamps = concat (map alignment_payloads evs)\<rparr>)])"
    if single: "socket_events ev = evs @ [Close]" "Close \<notin> set evs"
      and fetched: "airtable_find ev recordId = Inr row" "map_of row ''Script'' = Some script"
        "truthy (Some script)"
      and ok: "fst (handler_try ev recordId) = Responded resp" "status resp = 200"
  proof (cases "settled (generateAudioWithTimestamps ev script recordId)")
    case Pending
    with ok(1) show ?thesis
      by (simp add: handler_try_session [OF fetched] split: option.splits)
  next
    case (Rejected e)
    with ok show ?thesis
      by (auto simp: handler_try_session [OF fetched] internal_error_def)
  next
    case (Fulfilled res)
    note fin = closed_once_fulfilled [OF single Fulfilled]
    show ?thesis
    proof (cases "airtable_update ev recordId (update_fields ev res)")
      case None
      with Fulfilled fin show ?thesis
        by (simp add: handler_try_session [OF fetched] success_def)
    next
      case (Some e)
      with Fulfilled ok show ?thesis
        by (auto simp: handler_try_session [OF fetched] internal_error_def)
    qed
  qed
  from inv once keys answered show ?thesis
    by (simp add: s3Command_def publicUrl_def fileName_def template_text_def)
qed

theorem storage_key_and_address_witness:
  "settled (generateAudioWithTimestamps (example_env (one_fragment_stream @ [Close]) None None)
      (JStr ''Hello'') (JStr ''rec1''))
     = Fulfilled
         \<lparr>audioUrl = ''https://bucket.s3.eu-west-1.amazonaws.com/audio/rec1-1700000000123.mp3'',
          result_timestamps = []\<rparr>
   \<and> uploads (generateAudioWithTimestamps (example_env (one_fragment_stream @ [Close]) None None)
      (JStr ''Hello'') (JStr ''rec1''))
     = [\<lparr>Bucket = ''bucket'', Key = ''audio/rec1-1700000000123.mp3'', Body = [65, 66, 67],
         ContentType = ''audio/mpeg''\<rparr>]
   \<and> audioUrl \<lparr>audioUrl = ''https://bucket.s3.eu-west-1.amazonaws.com/audio/rec1-1700000000123.mp3'',
                 result_timestamps = []\<rparr>
       = publicUrl (example_env (one_fragment_stream @ [Close]) None None) (JStr ''rec1'')
   \<and> Key (s3Command (example_env (one_fragment_stream @ [Close]) None None) (JStr ''rec1'') [])
       \<noteq> Key (s3Command ((example_env (one_fragment_stream @ [Close]) None None)
                           \<lparr>Date_now := 1700000000124\<rparr>) (JStr ''rec1'') [])
   \<and> map (\<lambda>c. case c of S3Send p \<Rightarrow> Key p | _ \<Rightarrow> [])
        (snd (handler_try (example_env (one_fragment_stream @ [Close]) None None) (JStr ''rec1'')))
      = [[], [], ''audio/rec1-1700000000123.mp3'', []]"
proof -
  let ?ev = "example_env (one_fragment_stream @ [Close]) None None"
  let ?r = "\<lparr>audioUrl = ''https://bucket.s3.eu-west-1.amazonaws.com/audio/rec1-1700000000123.mp3'',
             result_timestamps = []\<rparr>"
  have h1: "settled (generateAudioWithTimestamps ?ev (JStr ''Hello'') (JStr ''rec1'')) = Fulfilled ?r"
    by (simp add: eval_defs one_fragment_stream_def)
  have h2: "Date_now ?ev \<noteq> Date_now (?ev\<lparr>Date_now := 1700000000124\<rparr>)"
    by (simp add: example_env_def)
  have h3: "socket_events ?ev = one_fragment_stream @ [Close]"
    by (simp add: example_env_def)
  have h4: "Close \<notin> set one_fragment_stream"
    by (simp add: one_fragment_stream_def audio_message_def)
  have cmd: "s3Command ?ev (JStr ''rec1'')
        (concat (concat (map (audio_fragments ?ev) one_fragment_stream)))
      = \<lparr>Bucket = ''bucket'', Key = ''audio/rec1-1700000000123.mp3'', Body = [65, 66, 67],
         ContentType = ''audio/mpeg''\<rparr>"
    by (simp add: eval_defs one_fragment_stream_def)
  note T = storage_key_and_address [where ev = ?ev and rid = "''rec1''" and buf = "[]"
      and recordId = "JStr ''rec1''" and script = "JStr ''Hello''" and r = ?r
      and evs = one_fragment_stream and ev' = "?ev\<lparr>Date_now := 1700000000124\<rparr>"
      and buf' = "[]" and row = "[(''Script'', JStr ''Hello'')]"
      and resp = "success ?r (JStr ''rec1'')"]
  from T h1 have url: "audioUrl ?r = publicUrl ?ev (JStr ''rec1'')"
    by blast
  from T h1 h3 h4
  have "uploads (generateAudioWithTimestamps ?ev (JStr ''Hello'') (JStr ''rec1''))
      = [s3Command ?ev (JStr ''rec1'')
           (concat (concat (map (audio_fragments ?ev) one_fragment_stream)))]"
    by blast
  then have up: "uploads (generateAudioWithTimestamps ?ev (JStr ''Hello'') (JStr ''rec1''))
     = [\<lparr>Bucket = ''bucket'', Key = ''audio/rec1-1700000000123.mp3'', Body = [65, 66, 67],
         ContentType = ''audio/mpeg''\<rparr>]"
    by (simp only: cmd)
  from T h2 have keys: "Key (s3Command ?ev (JStr ''rec1'') [])
       \<noteq> Key (s3Command (?ev\<lparr>Date_now := 1700000000124\<rparr>) (JStr ''rec1'') [])"
    by blast
  have q1: "airtable_find ?ev (JStr ''rec1'') = Inr [(''Script'', JStr ''Hello'')]"
    and q2: "map_of [(''Script'', JStr ''Hello'')] ''Script'' = Some (JStr ''Hello'')"
    and q3: "truthy (Some (JStr ''Hello''))"
    by (simp_all add: example_env_def)
  have q4: "fst (handler_try ?ev (JStr ''rec1'')) = Responded (success ?r (JStr ''rec1''))"
    by (simp only: handler_try_session [OF q1 q2 q3] h1) (simp add: example_env_def)
  have q5: "status (success ?r (JStr ''rec1'')) = 200"
    by (simp add: success_def)
  from T h3 h4 q1 q2 q3 q4 q5
  have "handler_try ?ev (JStr ''rec1'')
          = (Responded
               \<lparr>status = 200,
                json_body =
                  JObj [(''message'', JStr ''Successfully generated audio and updated records.''),
                        (''audioUrl'', JStr (publicUrl ?ev (JStr ''rec1''))),
                        (''recordId'', JStr ''rec1'')]\<rparr>,
             [AirtableFind (JStr ''rec1''), WebSocketOpen (socketUrl ?ev) (ELEVENLABS_API_KEY ?ev),
              S3Send (s3Command ?ev (JStr ''rec1'')
                (concat (concat (map (audio_fragments ?ev) one_fragment_stream)))),
              AirtableUpdate (JStr ''rec1'')
                (update_fields ?ev
                   \<lparr>audioUrl = publicUrl ?ev (JStr ''rec1''),
                    result_timestamps = concat (map alignment_payloads one_fragment_stream)\<rparr>)])"
    by blast
  then have calls: "map (\<lambda>c. case c of S3Send p \<Rightarrow> Key p | _ \<Rightarrow> [])
        (snd (handler_try ?ev (JStr ''rec1'')))
      = [[], [], ''audio/rec1-1700000000123.mp3'', []]"
    by (simp add: cmd)
  from h1 up url keys calls show ?thesis by blast
qed

theorem same_millisecond_same_key:
  "uploads (generateAudioWithTimestamps (example_env (one_fragment_stream @ [Close]) None None)
      (JStr ''Hello'') (JStr ''rec1''))
     = [\<lparr>Bucket = ''bucket'', Key = ''audio/rec1-1700000000123.mp3'', Body = [65, 66, 67],
         ContentType = ''audio/mpeg''\<rparr>]
   \<and> uploads (generateAudioWithTimestamps (example_env (two_fragment_stream @ [Close]) None None)
      (JStr ''Hello'') (JStr ''rec1''))
     = [\<lparr>Bucket = ''bucket'', Key = ''audio/rec1-1700000000123.mp3'',
         Body = [65, 66, 67, 68, 69, 70], ContentType = ''audio/mpeg''\<rparr>]"
  by (simp add: eval_defs one_fragment_stream_def two_fragment_stream_def)




text \<open>
  C10 (as amended). An inbound event whose audio field is present and holds the empty
  string carries no audio fragment: the listener adds nothing to the fragment list. So
  a session in which every audio field is absent or the empty string accumulates no
  fragment and never resolves: when its connection closes, once and as its last event,
  no listener having raised, the promise ends rejected and nothing is uploaded. The
  error is
  \<^verbatim>\<open>No audio data received from ElevenLabs.\<close> when no transport error was reported
  before the close, and the first transport error otherwise.
\<close>

theorem empty_string_audio_is_no_fragment:
  assumes "socket_events ev = evs @ [Close]"
      and "Close \<notin> set evs"
      and "uncaught (foldl (deliver ev script recordId) new_session evs) = None"
      and "list_all (\<lambda>event. audio_field event = None \<or> audio_field event = Some (JStr [])) evs"
  shows "(map_of kvs ''audio'' = Some (JStr []) \<longrightarrow>
            on_message ev (Wellformed (JObj kvs)) st
              = Inr (push_alignment (map_of kvs ''alignment'') st)
          \<and> audioChunks (push_alignment (map_of kvs ''alignment'') st) = audioChunks st
          \<and> audio_fragments ev (Message (Wellformed (JObj kvs))) = [])
       \<and> audioChunks (foldl (deliver ev script recordId) new_session evs) = []
       \<and> settled (generateAudioWithTimestamps ev script recordId)
           = Rejected (case first_error evs of
                         None \<Rightarrow> Error ''No audio data received from ElevenLabs.''
                       | Some e \<Rightarrow> e)
       \<and> uploads (generateAudioWithTimestamps ev script recordId) = []"
proof -
  have one: "audio_field event = None \<or> audio_field event = Some (JStr [])
      \<Longrightarrow> audio_fragments ev event = []" for event
    by (cases event rule: audio_payload.cases) (auto simp: audio_fragments_def)
  from assms(4) have none: "concat (map (audio_fragments ev) evs) = []"
    by (induction evs) (simp_all add: one)
  have chunks: "audioChunks (foldl (deliver ev script recordId) new_session evs) = []"
    using run_arrays [OF assms(3)] none by (simp add: new_session_def del: concat_eq_Nil_conv)
  have single: "map_of kvs ''audio'' = Some (JStr []) \<Longrightarrow>
            on_message ev (Wellformed (JObj kvs)) st
              = Inr (push_alignment (map_of kvs ''alignment'') st)
          \<and> audioChunks (push_alignment (map_of kvs ''alignment'') st) = audioChunks st
          \<and> audio_fragments ev (Message (Wellformed (JObj kvs))) = []"
    by (simp add: on_message_def push_audio_def push_alignment_def audio_fragments_def
          split: option.splits)
  from closed_once_without_fragments [OF assms(1-3) none] chunks single show ?thesis
    by blast
qed

theorem empty_string_audio_is_no_fragment_witness:
  "map_of [(''audio'', JStr [])] ''audio'' = Some (JStr [])
   \<and> on_message (example_env (silent_stream @ [Close]) None None)
        (Wellformed (JObj [(''audio'', JStr [])])) new_session
       = Inr new_session
   \<and> settled (generateAudioWithTimestamps (example_env (silent_stream @ [Close]) None None)
         (JStr ''Hello'') (JStr ''rec1''))
       = Rejected (Error ''No audio data received from ElevenLabs.'')
   \<and> uploads (generateAudioWithTimestamps (example_env (silent_stream @ [Close]) None None)
         (JStr ''Hello'') (JStr ''rec1'')) = []"
proof -
  let ?ev = "example_env (silent_stream @ [Close]) None None"
  have h1: "socket_events ?ev = silent_stream @ [Close]"
    by (simp add: example_env_def)
  have h2: "Close \<notin> set silent_stream"
    by (simp add: silent_stream_def audio_message_def alignment_message_def)
  have h3: "uncaught (foldl (deliver ?ev (JStr ''Hello'') (JStr ''rec1'')) new_session silent_stream)
              = None"
    by (simp add: eval_defs silent_stream_def)
  have h4: "list_all (\<lambda>event. audio_field event = None \<or> audio_field event = Some (JStr []))
              silent_stream"
    by (simp add: silent_stream_def audio_message_def alignment_message_def)
  have h5: "map_of [(''audio'', JStr [])] ''audio'' = Some (JStr [])"
    by simp
  have h6: "first_error silent_stream = None"
    by (simp add: silent_stream_def audio_message_def alignment_message_def)
  have p: "push_alignment (map_of [(''audio'', JStr [])] ''alignment'') new_session = new_session"
    by (simp add: push_alignment_def)
  from empty_string_audio_is_no_fragment [OF h1 h2 h3 h4, of "[(''audio'', JStr [])]" new_session]
    h5 h6 p
  show ?thesis by simp
qed

theorem empty_string_audio_then_transport_error:
  "list_all (\<lambda>event. audio_field event = None \<or> audio_field event = Some (JStr []))
      [Open, audio_message [], SocketError (Error ''socket hang up'')]
   \<and> settled (generateAudioWithTimestamps
        (example_env [Open, audio_message [], SocketError (Error ''socket hang up''), Close]
           None None)
        (JStr ''Hello'') (JStr ''rec1''))
       = Rejected (Error ''socket hang up'')"
  by (simp add: eval_defs)

end
